theory Spec2Isabelle
  imports Complex_Main
begin

section \<open>Time values and their ISO-8601 rendering\<close>

text \<open>
  A JavaScript \<open>Date\<close> holds a time value: a whole number of milliseconds since
  1970-01-01T00:00:00Z, at most 8.64e15 on either side, or NaN for an Invalid Date. A
  valid time value is an \<open>int\<close> here; a \<open>Date\<close> that may be invalid is an \<open>int option\<close>
  with \<open>None\<close> for NaN.
\<close>

type_synonym instant = int

definition maxTime :: int where
  "maxTime = 8640000000000000"

text \<open>
  A Number that reaches the program in a JSON body is finite or, for a literal such as
  \<open>1e999\<close>, infinite. A finite Number is a \<open>real\<close>: the rounding of floating-point
  arithmetic is not modelled. The statements that compute the end of an appointment take
  its duration to be a whole number of milliseconds; up to \<open>2^53\<close> of them the arithmetic
  of the source is then exact.
\<close>

datatype number = Finite real | PlusInfinity | MinusInfinity

text \<open>\<open>ToIntegerOrInfinity\<close> of a finite number drops the fraction.\<close>

definition ToIntegerOrInfinity :: "real \<Rightarrow> int" where
  "ToIntegerOrInfinity x = (if 0 \<le> x then \<lfloor>x\<rfloor> else \<lceil>x\<rceil>)"

text \<open>
  \<open>TimeClip\<close>, which every \<open>new Date(...)\<close> applies to its time value: a finite number
  beyond the range gives NaN.
\<close>

definition TimeClip :: "real \<Rightarrow> instant option" where
  "TimeClip x = (if \<bar>x\<bar> \<le> of_int maxTime then Some (ToIntegerOrInfinity x) else None)"

definition msPerDay :: int where
  "msPerDay = 86400000"

definition Day :: "instant \<Rightarrow> int" where
  "Day t = t div msPerDay"

definition TimeWithinDay :: "instant \<Rightarrow> int" where
  "TimeWithinDay t = t mod msPerDay"

definition DayFromYear :: "int \<Rightarrow> int" where
  "DayFromYear y =
     365 * (y - 1970) + (y - 1969) div 4 - (y - 1901) div 100 + (y - 1601) div 400"

definition InLeapYear :: "int \<Rightarrow> bool" where
  "InLeapYear y = ((y mod 4 = 0 \<and> y mod 100 \<noteq> 0) \<or> y mod 400 = 0)"

lemma div_succ:
  fixes a n :: int
  assumes "0 < n"
  shows "(a + 1) div n = a div n + (if (a + 1) mod n = 0 then 1 else 0)"
proof -
  define q r where "q = a div n" and "r = a mod n"
  have a: "a = q * n + r" and r: "0 \<le> r" "r < n"
    using assms by (simp_all add: q_def r_def)
  show ?thesis
  proof (cases "r + 1 = n")
    case True
    then have "a + 1 = (q + 1) * n" using a by (simp add: algebra_simps)
    then show ?thesis using assms q_def by simp
  next
    case False
    then have lt: "r + 1 < n" using r by simp
    have e: "a + 1 = q * n + (r + 1)" using a by simp
    have "(a + 1) div n = q" unfolding e using lt r by simp
    moreover have "(a + 1) mod n = r + 1" unfolding e using lt r by simp
    ultimately show ?thesis using r q_def by simp
  qed
qed

lemma mod_shift_4: "((y::int) - 1968) mod 4 = y mod 4"
proof -
  have "(y - 1968) mod 4 = (y + (- 492) * 4) mod 4" by simp
  also have "\<dots> = y mod 4" by (rule mod_mult_self1)
  finally show ?thesis .
qed

lemma mod_shift_100: "((y::int) - 1900) mod 100 = y mod 100"
proof -
  have "(y - 1900) mod 100 = (y + (- 19) * 100) mod 100" by simp
  also have "\<dots> = y mod 100" by (rule mod_mult_self1)
  finally show ?thesis .
qed

lemma mod_shift_400: "((y::int) - 1600) mod 400 = y mod 400"
proof -
  have "(y - 1600) mod 400 = (y + (- 4) * 400) mod 400" by simp
  also have "\<dots> = y mod 400" by (rule mod_mult_self1)
  finally show ?thesis .
qed

lemma DayFromYear_step:
  "DayFromYear (y + 1) = DayFromYear y + (if InLeapYear y then 366 else 365)"
proof -
  have a: "(y + 1 - 1969) div 4 = (y - 1969) div 4 + (if y mod 4 = 0 then 1 else 0)"
    using div_succ [of 4 "y - 1969"] mod_shift_4 [of y] by (simp add: algebra_simps)
  have b: "(y + 1 - 1901) div 100 = (y - 1901) div 100 + (if y mod 100 = 0 then 1 else 0)"
    using div_succ [of 100 "y - 1901"] mod_shift_100 [of y] by (simp add: algebra_simps)
  have c: "(y + 1 - 1601) div 400 = (y - 1601) div 400 + (if y mod 400 = 0 then 1 else 0)"
    using div_succ [of 400 "y - 1601"] mod_shift_400 [of y] by (simp add: algebra_simps)
  have d: "y mod 400 = 0 \<Longrightarrow> y mod 100 = 0 \<and> y mod 4 = 0"
  proof -
    assume "y mod 400 = 0"
    then have "400 dvd y" by (simp add: dvd_eq_mod_eq_0)
    moreover have "(100::int) dvd 400" "(4::int) dvd 400" by simp_all
    ultimately have "100 dvd y" "4 dvd y" using dvd_trans by blast+
    then show ?thesis by (simp add: dvd_eq_mod_eq_0)
  qed
  have e: "y mod 100 = 0 \<Longrightarrow> y mod 4 = 0"
  proof -
    assume "y mod 100 = 0"
    then have "100 dvd y" by (simp add: dvd_eq_mod_eq_0)
    moreover have "(4::int) dvd 100" by simp
    ultimately have "4 dvd y" using dvd_trans by blast
    then show ?thesis by (simp add: dvd_eq_mod_eq_0)
  qed
  show ?thesis
    unfolding DayFromYear_def InLeapYear_def a b c using d e by auto
qed

lemma DayFromYear_pred_less: "DayFromYear (y - 1) < DayFromYear y"
  using DayFromYear_step [of "y - 1"] by (simp split: if_splits)

text \<open>The largest year whose first day is not after the given day, searched downwards.\<close>

function yearDown :: "int \<Rightarrow> int \<Rightarrow> int" where
  "yearDown d y = (if DayFromYear y \<le> d then y else yearDown d (y - 1))"
  by pat_completeness auto

termination
proof (relation "measure (\<lambda>(d, y). nat (DayFromYear y - d))")
  show "wf (measure (\<lambda>(d, y). nat (DayFromYear y - d)))" by simp
next
  fix d y :: int
  assume "\<not> DayFromYear y \<le> d"
  then show "((d, y - 1), (d, y)) \<in> measure (\<lambda>(d, y). nat (DayFromYear y - d))"
    using DayFromYear_pred_less [of y] by simp
qed

declare yearDown.simps [simp del]

definition YearFromTime :: "instant \<Rightarrow> int" where
  "YearFromTime t =
     yearDown (Day t) (if 0 \<le> Day t then 1970 + Day t div 365 + 1 else 1970)"

definition DayWithinYear :: "instant \<Rightarrow> int" where
  "DayWithinYear t = Day t - DayFromYear (YearFromTime t)"

definition leapDays :: "bool \<Rightarrow> int" where
  "leapDays l = (if l then 1 else 0)"

text \<open>Month (1 to 12) and day of the month from the day within the year.\<close>

definition monthDate :: "bool \<Rightarrow> int \<Rightarrow> int \<times> int" where
  "monthDate l n =
     (let k = leapDays l in
      if n < 31 then (1, n + 1)
      else if n < 59 + k then (2, n - 30)
      else if n < 90 + k then (3, n - 58 - k)
      else if n < 120 + k then (4, n - 89 - k)
      else if n < 151 + k then (5, n - 119 - k)
      else if n < 181 + k then (6, n - 150 - k)
      else if n < 212 + k then (7, n - 180 - k)
      else if n < 243 + k then (8, n - 211 - k)
      else if n < 273 + k then (9, n - 242 - k)
      else if n < 304 + k then (10, n - 272 - k)
      else if n < 334 + k then (11, n - 303 - k)
      else (12, n - 333 - k))"

definition digit :: "int \<Rightarrow> char" where
  "digit n = char_of (48 + n)"

definition pad2 :: "int \<Rightarrow> string" where
  "pad2 n = [digit (n div 10 mod 10), digit (n mod 10)]"

definition pad3 :: "int \<Rightarrow> string" where
  "pad3 n = digit (n div 100 mod 10) # pad2 n"

definition pad4 :: "int \<Rightarrow> string" where
  "pad4 n = digit (n div 1000 mod 10) # pad3 n"

definition pad6 :: "int \<Rightarrow> string" where
  "pad6 n = digit (n div 100000 mod 10) # digit (n div 10000 mod 10) # pad4 n"

definition yearString :: "int \<Rightarrow> string" where
  "yearString y =
     (if 0 \<le> y \<and> y \<le> 9999 then pad4 y
      else if y < 0 then CHR ''-'' # pad6 (- y) else CHR ''+'' # pad6 y)"

text \<open>\<open>Date.prototype.toISOString\<close> of a valid time value: \<open>YYYY-MM-DDTHH:mm:ss.sssZ\<close>.\<close>

definition toISOString :: "instant \<Rightarrow> string" where
  "toISOString t =
     (let y = YearFromTime t;
          md = monthDate (InLeapYear y) (DayWithinYear t);
          w = TimeWithinDay t
      in yearString y @ ''-'' @ pad2 (fst md) @ ''-'' @ pad2 (snd md) @ ''T''
         @ pad2 (w div 3600000) @ '':'' @ pad2 (w div 60000 mod 60) @ '':''
         @ pad2 (w div 1000 mod 60) @ ''.'' @ pad3 (w mod 1000) @ ''Z'')"

section \<open>Parsing date strings\<close>

text \<open>
  \<open>new Date(string)\<close> belongs to the JavaScript engine, not to the program, and what it
  accepts beyond the standard date-time string format differs between engines. The
  functions of the program therefore take the parser as a parameter: \<open>None\<close> is an
  Invalid Date. \<open>parseISO\<close> is a concrete parser for the three forms the program itself
  produces (\<open>YYYY-MM-DD\<close>, \<open>YYYY-MM-DDTHH:mm:ssZ\<close> and \<open>YYYY-MM-DDTHH:mm:ss.sssZ\<close>); it
  takes every other string as invalid and, like V8, accepts any day of the month from 1
  to 31.
\<close>

type_synonym date_parser = "string \<Rightarrow> instant option"

text \<open>\<open>new Date(s)\<close> for a string \<open>s\<close>: the parser's result, clipped to the range of time values.\<close>

definition newDate :: "date_parser \<Rightarrow> string \<Rightarrow> instant option" where
  "newDate parse s = (case parse s of None \<Rightarrow> None | Some t \<Rightarrow> TimeClip (of_int t))"

definition isDigit :: "char \<Rightarrow> bool" where
  "isDigit c = (c \<in> set ''0123456789'')"

definition digitVal :: "char \<Rightarrow> int" where
  "digitVal c = int (of_char c) - 48"

definition num :: "string \<Rightarrow> int option" where
  "num s = (if s \<noteq> [] \<and> list_all isDigit s
            then Some (foldl (\<lambda>a c. 10 * a + digitVal c) 0 s) else None)"

definition monthStart :: "bool \<Rightarrow> int \<Rightarrow> int" where
  "monthStart l m =
     (let k = leapDays l in
      if m = 1 then 0 else if m = 2 then 31 else if m = 3 then 59 + k
      else if m = 4 then 90 + k else if m = 5 then 120 + k else if m = 6 then 151 + k
      else if m = 7 then 181 + k else if m = 8 then 212 + k else if m = 9 then 243 + k
      else if m = 10 then 273 + k else if m = 11 then 304 + k else 334 + k)"

definition MakeDay :: "int \<Rightarrow> int \<Rightarrow> int \<Rightarrow> int" where
  "MakeDay y m d = DayFromYear y + monthStart (InLeapYear y) m + d - 1"

definition parseDatePart :: "string \<Rightarrow> int option" where
  "parseDatePart s =
     (if length s = 10 \<and> s ! 4 = CHR ''-'' \<and> s ! 7 = CHR ''-'' then
        (case (num (take 4 s), num (take 2 (drop 5 s)), num (drop 8 s)) of
           (Some y, Some m, Some d) \<Rightarrow>
             if 1 \<le> m \<and> m \<le> 12 \<and> 1 \<le> d \<and> d \<le> 31 then Some (MakeDay y m d) else None
         | _ \<Rightarrow> None)
      else None)"

definition validTime :: "int \<Rightarrow> int \<Rightarrow> int \<Rightarrow> int \<Rightarrow> bool" where
  "validTime h mi sec ms =
     ((h < 24 \<and> mi < 60 \<and> sec < 60) \<or> (h = 24 \<and> mi = 0 \<and> sec = 0 \<and> ms = 0))"

definition parseTimePart :: "string \<Rightarrow> int option" where
  "parseTimePart s =
     (if length s = 9 \<and> s ! 2 = CHR '':'' \<and> s ! 5 = CHR '':'' \<and> s ! 8 = CHR ''Z'' then
        (case (num (take 2 s), num (take 2 (drop 3 s)), num (take 2 (drop 6 s))) of
           (Some h, Some mi, Some sec) \<Rightarrow>
             if validTime h mi sec 0 then Some (h * 3600000 + mi * 60000 + sec * 1000)
             else None
         | _ \<Rightarrow> None)
      else if length s = 13 \<and> s ! 2 = CHR '':'' \<and> s ! 5 = CHR '':'' \<and> s ! 8 = CHR ''.''
              \<and> s ! 12 = CHR ''Z'' then
        (case (num (take 2 s), num (take 2 (drop 3 s)), num (take 2 (drop 6 s)),
               num (take 3 (drop 9 s))) of
           (Some h, Some mi, Some sec, Some ms) \<Rightarrow>
             if validTime h mi sec ms
             then Some (h * 3600000 + mi * 60000 + sec * 1000 + ms) else None
         | _ \<Rightarrow> None)
      else None)"

definition parseISO :: date_parser where
  "parseISO s =
     (if length s = 10 then map_option (\<lambda>d. d * msPerDay) (parseDatePart s)
      else if 10 < length s \<and> s ! 10 = CHR ''T'' then
        (case (parseDatePart (take 10 s), parseTimePart (drop 11 s)) of
           (Some d, Some w) \<Rightarrow> Some (d * msPerDay + w)
         | _ \<Rightarrow> None)
      else None)"

section \<open>Data model\<close>

text \<open>
  The two Mongoose schemas. An \<open>ObjectId\<close> is a natural number. The \<open>date\<close> of a stored
  appointment is the millisecond count of its BSON date; \<open>duration\<close> is a Number of
  minutes, or \<open>None\<close> when the field is absent (\<open>undefined\<close> when read back).
\<close>

record workingHours =
  wh_start :: string
  wh_end :: string

record doctor =
  doctor_id :: nat
  name :: string
  workingHours :: workingHours
  specialization :: string

record appointment =
  appt_id :: nat
  doctorId :: nat
  date :: instant
  duration :: "number option"
  appointmentType :: string
  patientName :: string
  appt_notes :: string

section \<open>Slot generation and overlap test\<close>

datatype error = InvalidDate | InvalidWorkingHoursOrDate | RangeError | CastError

text \<open>
  \<open>a < b\<close> on two \<open>Date\<close> objects compares their time values, and every comparison with
  NaN is false.
\<close>

definition date_lt :: "instant option \<Rightarrow> instant option \<Rightarrow> bool" where
  "date_lt a b = (case (a, b) of (Some x, Some y) \<Rightarrow> x < y | _ \<Rightarrow> False)"

text \<open>
  The two dates of the callback of \<open>appointments.some\<close>. \<open>apptEnd\<close> is
  \<open>new Date(apptStart.getTime() + appt.duration * 60000)\<close>: an Invalid Date when the
  duration is absent (\<open>undefined * 60000\<close> is NaN) or infinite, and when the sum is
  beyond the range of time values.
\<close>

definition apptStart :: "appointment \<Rightarrow> instant option" where
  "apptStart appt = TimeClip (of_int (date appt))"

definition apptEnd :: "appointment \<Rightarrow> instant option" where
  "apptEnd appt =
     (case (apptStart appt, duration appt) of
        (Some a, Some (Finite d)) \<Rightarrow> TimeClip (of_int a + d * 60000)
      | _ \<Rightarrow> None)"

text \<open>The callback itself, \<open>currentTime < apptEnd && nextSlot > apptStart\<close>.\<close>

definition slotOverlaps :: "instant \<Rightarrow> instant option \<Rightarrow> appointment \<Rightarrow> bool" where
  "slotOverlaps currentTime nextSlot appt =
     (date_lt (Some currentTime) (apptEnd appt) \<and> date_lt (apptStart appt) nextSlot)"

definition isSlotTaken :: "appointment list \<Rightarrow> instant \<Rightarrow> instant option \<Rightarrow> bool" where
  "isSlotTaken appointments currentTime nextSlot =
     list_ex (slotOverlaps currentTime nextSlot) appointments"

lemma TimeClip_of_int:
  "TimeClip (of_int n) = (if \<bar>n\<bar> \<le> maxTime then Some n else None)"
proof -
  have "\<bar>real_of_int n\<bar> \<le> real_of_int maxTime \<longleftrightarrow> \<bar>n\<bar> \<le> maxTime"
    by (metis of_int_abs of_int_le_iff)
  then show ?thesis
    by (simp add: TimeClip_def ToIntegerOrInfinity_def)
qed

lemma nextSlot_eq:
  "TimeClip (of_int c + 1800000) = (if \<bar>c + 1800000\<bar> \<le> maxTime then Some (c + 1800000) else None)"
  using TimeClip_of_int [of "c + 1800000"] by simp

text \<open>
  The \<open>while\<close> loop of \<open>calculateAvailableSlots\<close>, with \<open>availableSlots\<close> as accumulator.
  \<open>currentTime\<close> is a \<open>Date\<close> that the assignment \<open>currentTime = nextSlot\<close> may make
  invalid; the loop test is then false.
\<close>

function slotLoop ::
  "appointment list \<Rightarrow> instant \<Rightarrow> instant option \<Rightarrow> string list \<Rightarrow> string list" where
  "slotLoop appointments workingEnd currentTime availableSlots =
     (case currentTime of
        None \<Rightarrow> availableSlots
      | Some c \<Rightarrow>
          if c < workingEnd then
            slotLoop appointments workingEnd (TimeClip (of_int c + 30 * 60000))
              (if \<not> isSlotTaken appointments c (TimeClip (of_int c + 30 * 60000))
               then availableSlots @ [toISOString c] else availableSlots)
          else availableSlots)"
  by pat_completeness auto

termination
proof (relation "measure (\<lambda>(a, e, c, s). case c of None \<Rightarrow> 0 | Some t \<Rightarrow> nat (e - t) + 1)")
  show "wf (measure (\<lambda>(a, e, c, s). case c of None \<Rightarrow> 0 | Some t \<Rightarrow> nat (e - t) + 1))"
    by simp
next
  fix appointments :: "appointment list" and workingEnd c :: instant
    and currentTime :: "instant option" and availableSlots :: "string list"
  assume "currentTime = Some c" and "c < workingEnd"
  then show "((appointments, workingEnd, TimeClip (of_int c + 30 * 60000),
                if \<not> isSlotTaken appointments c (TimeClip (of_int c + 30 * 60000))
                then availableSlots @ [toISOString c] else availableSlots),
              (appointments, workingEnd, currentTime, availableSlots))
             \<in> measure (\<lambda>(a, e, c, s). case c of None \<Rightarrow> 0 | Some t \<Rightarrow> nat (e - t) + 1)"
    by (simp add: nextSlot_eq)
qed

declare slotLoop.simps [simp del]

text \<open>\<open>Appointment.find({doctorId, date: {$gte: workingStart, $lt: workingEnd}})\<close>.\<close>

definition findAppointments :: "appointment list \<Rightarrow> nat \<Rightarrow> instant \<Rightarrow> instant \<Rightarrow> appointment list" where
  "findAppointments coll did workingStart workingEnd =
     filter (\<lambda>a. doctorId a = did \<and> workingStart \<le> date a \<and> date a < workingEnd) coll"

text \<open>
  \<open>calculateAvailableSlots(doctor, date)\<close> over the appointment collection \<open>coll\<close>. A
  missing \<open>date\<close> is falsy like the empty string.
\<close>

definition calculateAvailableSlots ::
  "date_parser \<Rightarrow> appointment list \<Rightarrow> doctor \<Rightarrow> string \<Rightarrow> error + string list" where
  "calculateAvailableSlots parse coll doc dateStr =
     (if dateStr = [] \<or> newDate parse dateStr = None then Inl InvalidDate
      else
        (case (newDate parse (dateStr @ ''T'' @ wh_start (workingHours doc) @ '':00Z''),
               newDate parse (dateStr @ ''T'' @ wh_end (workingHours doc) @ '':00Z'')) of
           (Some workingStart, Some workingEnd) \<Rightarrow>
             Inr (slotLoop (findAppointments coll (doctor_id doc) workingStart workingEnd)
                    workingEnd (Some workingStart) [])
         | _ \<Rightarrow> Inl InvalidWorkingHoursOrDate))"

section \<open>Persistence\<close>

text \<open>
  The two collections, and the supply of fresh \<open>ObjectId\<close>s. \<open>find\<close> and \<open>findOne\<close>
  return documents in insertion order; \<open>_id\<close> is unique within a collection.
\<close>

record db =
  doctors :: "doctor list"
  appointments :: "appointment list"
  nextId :: nat

definition findDoctorById :: "db \<Rightarrow> nat \<Rightarrow> doctor option" where
  "findDoctorById s i = find (\<lambda>d. doctor_id d = i) (doctors s)"

definition findAppointmentById :: "db \<Rightarrow> nat \<Rightarrow> appointment option" where
  "findAppointmentById s i = find (\<lambda>a. appt_id a = i) (appointments s)"

text \<open>\<open>Appointment.findOne({doctorId, date})\<close>.\<close>

definition findOneAppointment :: "db \<Rightarrow> nat \<Rightarrow> instant \<Rightarrow> appointment option" where
  "findOneAppointment s did t = find (\<lambda>a. doctorId a = did \<and> date a = t) (appointments s)"

text \<open>\<open>save()\<close> of a new document inserts it; of a loaded document, replaces it.\<close>

definition insertAppointment :: "appointment \<Rightarrow> db \<Rightarrow> db" where
  "insertAppointment a s = s\<lparr>appointments := appointments s @ [a]\<rparr>"

definition replaceAppointment :: "appointment \<Rightarrow> db \<Rightarrow> db" where
  "replaceAppointment a s =
     s\<lparr>appointments := map (\<lambda>x. if appt_id x = appt_id a then a else x) (appointments s)\<rparr>"

definition findByIdAndDelete :: "nat \<Rightarrow> db \<Rightarrow> db" where
  "findByIdAndDelete i s = s\<lparr>appointments := filter (\<lambda>a. appt_id a \<noteq> i) (appointments s)\<rparr>"

section \<open>Date normalisation\<close>

text \<open>
  The regular expression of \<open>sanitizeDate\<close>,
  \<open>/(\d{4}-\d{2}-\d{2}T\d{2}:\d{2}:\d{2}\.\d{3}Z)/\<close>, is a sequence of atoms, each matching
  one character. \<open>String.prototype.match\<close> returns the leftmost match.
\<close>

datatype atom = Digit | Lit char

fun atomMatches :: "atom \<Rightarrow> char \<Rightarrow> bool" where
  "atomMatches Digit c = isDigit c"
| "atomMatches (Lit l) c = (c = l)"

definition isoRegex :: "atom list" where
  "isoRegex =
     replicate 4 Digit @ [Lit CHR ''-''] @ replicate 2 Digit @ [Lit CHR ''-'']
     @ replicate 2 Digit @ [Lit CHR ''T''] @ replicate 2 Digit @ [Lit CHR '':'']
     @ replicate 2 Digit @ [Lit CHR '':''] @ replicate 2 Digit @ [Lit CHR ''.'']
     @ replicate 3 Digit @ [Lit CHR ''Z'']"

fun matchPrefix :: "atom list \<Rightarrow> string \<Rightarrow> bool" where
  "matchPrefix [] s = True"
| "matchPrefix (a # as) [] = False"
| "matchPrefix (a # as) (c # cs) = (atomMatches a c \<and> matchPrefix as cs)"

fun firstMatch :: "atom list \<Rightarrow> string \<Rightarrow> string option" where
  "firstMatch p [] = (if matchPrefix p [] then Some [] else None)"
| "firstMatch p (c # cs) =
     (if matchPrefix p (c # cs) then Some (take (length p) (c # cs)) else firstMatch p cs)"

definition sanitizeDate :: "string \<Rightarrow> string option" where
  "sanitizeDate incomingDate = firstMatch isoRegex incomingDate"

text \<open>
  The \<open>try\<close> block of the POST handler: \<open>None\<close> is the \<open>catch\<close> branch, which answers
  400 "Invalid date format".
\<close>

definition normalizeDate :: "date_parser \<Rightarrow> string \<Rightarrow> string option" where
  "normalizeDate parse dateIn =
     (case sanitizeDate dateIn of
        None \<Rightarrow> None
      | Some sanitizedDate \<Rightarrow>
          (case newDate parse sanitizedDate of
             None \<Rightarrow> None
           | Some parsedDate \<Rightarrow> Some (toISOString parsedDate)))"

section \<open>Route handlers\<close>

datatype response =
    InvalidOrMissingDateField
  | InvalidDateFormat
  | DoctorNotFound
  | SlotUnavailable
  | SlotAlreadyBooked
  | Created appointment
  | Unhandled error
  | InvalidOrMissingDate
  | InvalidOrMissingDuration
  | AppointmentNotFound
  | DoctorNotFoundForAppointment
  | Updated appointment
  | InternalServerError
  | NoContent

text \<open>
  The body of a POST request. \<open>req_date\<close> is \<open>None\<close> when the field is missing or not a
  string (the handler tests \<open>typeof date\<close>); \<open>req_duration\<close> is the Number that is
  stored, \<open>None\<close> when the field is missing.
\<close>

record postBody =
  req_doctorId :: nat
  req_date :: "string option"
  req_duration :: "number option"
  req_appointmentType :: string
  req_patientName :: string
  req_notes :: string

text \<open>\<open>s.split("T")[0]\<close>.\<close>

definition splitT :: "string \<Rightarrow> string" where
  "splitT s = takeWhile (\<lambda>c. c \<noteq> CHR ''T'') s"

definition newAppointment :: "nat \<Rightarrow> postBody \<Rightarrow> instant \<Rightarrow> appointment" where
  "newAppointment i b t =
     \<lparr>appt_id = i, doctorId = req_doctorId b, date = t, duration = req_duration b,
      appointmentType = req_appointmentType b, patientName = req_patientName b,
      appt_notes = req_notes b\<rparr>"

text \<open>
  \<open>app.post("/appointments")\<close>, run without interruption. An exception that leaves the
  handler (from \<open>calculateAvailableSlots\<close>, from \<open>toISOString\<close> of an Invalid Date, or from
  Mongoose casting the date string) is \<open>Unhandled\<close>: no response is sent.
\<close>

definition post_appointments :: "date_parser \<Rightarrow> db \<Rightarrow> postBody \<Rightarrow> response \<times> db" where
  "post_appointments parse s b =
     (case req_date b of
        None \<Rightarrow> (InvalidOrMissingDateField, s)
      | Some dateIn \<Rightarrow>
          if dateIn = [] then (InvalidOrMissingDateField, s)
          else
            (case normalizeDate parse dateIn of
               None \<Rightarrow> (InvalidDateFormat, s)
             | Some processedDate \<Rightarrow>
                 (case findDoctorById s (req_doctorId b) of
                    None \<Rightarrow> (DoctorNotFound, s)
                  | Some doc \<Rightarrow>
                      (case calculateAvailableSlots parse (appointments s) doc (splitT processedDate) of
                         Inl e \<Rightarrow> (Unhandled e, s)
                       | Inr slots \<Rightarrow>
                           if \<exists>slot \<in> set slots. newDate parse slot = None then (Unhandled RangeError, s)
                           else if processedDate \<notin> set (map (\<lambda>slot. toISOString (the (newDate parse slot))) slots)
                           then (SlotUnavailable, s)
                           else
                             (case newDate parse processedDate of
                                None \<Rightarrow> (Unhandled CastError, s)
                              | Some t \<Rightarrow>
                                  (case findOneAppointment s (req_doctorId b) t of
                                     Some existingAppointment \<Rightarrow> (SlotAlreadyBooked, s)
                                   | None \<Rightarrow>
                                       (Created (newAppointment (nextId s) b t),
                                        insertAppointment (newAppointment (nextId s) b t)
                                          (s\<lparr>nextId := Suc (nextId s)\<rparr>))))))))"

text \<open>
  A field of a JSON body whose type the handler does not test before use: missing, \<open>null\<close>,
  a boolean, a number or a string (arrays and objects are left out).
\<close>

datatype json = JUndefined | JNull | JBool bool | JNum number | JStr string

text \<open>\<open>truthy v\<close> is the negation of \<open>!v\<close>.\<close>

fun truthy :: "json \<Rightarrow> bool" where
  "truthy JUndefined = False"
| "truthy JNull = False"
| "truthy (JBool b) = b"
| "truthy (JNum (Finite x)) = (x \<noteq> 0)"
| "truthy (JNum PlusInfinity) = True"
| "truthy (JNum MinusInfinity) = True"
| "truthy (JStr s) = (s \<noteq> [])"

text \<open>\<open>new Date(v)\<close>: a string is parsed, every other value is converted to a number.\<close>

fun newDateOf :: "date_parser \<Rightarrow> json \<Rightarrow> instant option" where
  "newDateOf parse JUndefined = None"
| "newDateOf parse JNull = TimeClip 0"
| "newDateOf parse (JBool b) = TimeClip (if b then 1 else 0)"
| "newDateOf parse (JNum (Finite x)) = TimeClip x"
| "newDateOf parse (JNum PlusInfinity) = None"
| "newDateOf parse (JNum MinusInfinity) = None"
| "newDateOf parse (JStr s) = newDate parse s"

record putBody =
  put_date :: json
  put_duration :: "number option"

text \<open>
  \<open>app.put("/appointments/:id")\<close>. \<open>put_duration\<close> is \<open>None\<close> when the field is missing or
  not a number (the handler tests \<open>typeof duration\<close>); \<open>!duration\<close> also holds for 0.
  The type of \<open>date\<close> is not tested: a value that is not a string and passes the first
  check has no \<open>split\<close> method, and the call throws. Every exception is caught and
  answered with 500.
\<close>

definition put_appointments :: "date_parser \<Rightarrow> db \<Rightarrow> nat \<Rightarrow> putBody \<Rightarrow> response \<times> db" where
  "put_appointments parse s i b =
     (if \<not> truthy (put_date b) \<or> newDateOf parse (put_date b) = None
      then (InvalidOrMissingDate, s)
      else
        (case put_duration b of
           None \<Rightarrow> (InvalidOrMissingDuration, s)
         | Some n \<Rightarrow>
             if n = Finite 0 then (InvalidOrMissingDuration, s)
             else
               (case findAppointmentById s i of
                  None \<Rightarrow> (AppointmentNotFound, s)
                | Some appt \<Rightarrow>
                    (case findDoctorById s (doctorId appt) of
                       None \<Rightarrow> (DoctorNotFoundForAppointment, s)
                     | Some doc \<Rightarrow>
                         (case put_date b of
                            JStr dateIn \<Rightarrow>
                              (case calculateAvailableSlots parse (appointments s) doc (splitT dateIn) of
                                 Inl e \<Rightarrow> (InternalServerError, s)
                               | Inr slots \<Rightarrow>
                                   (case newDate parse dateIn of
                                      None \<Rightarrow> (InternalServerError, s)
                                    | Some t \<Rightarrow>
                                        if toISOString t \<notin> set slots then (SlotUnavailable, s)
                                        else
                                          (Updated (appt\<lparr>date := t, duration := Some n\<rparr>),
                                           replaceAppointment (appt\<lparr>date := t, duration := Some n\<rparr>) s)))
                          | _ \<Rightarrow> (InternalServerError, s))))))"

text \<open>\<open>app.delete("/appointments/:id")\<close>.\<close>

definition delete_appointments :: "db \<Rightarrow> nat \<Rightarrow> response \<times> db" where
  "delete_appointments s i = (NoContent, findByIdAndDelete i s)"

section \<open>Interleaved requests\<close>

text \<open>
  A handler runs without interruption up to an \<open>await\<close> of a persistence call; while it
  waits, another handler may run. A task is a POST handler stopped at one of its four
  awaits, holding the local variables it will use afterwards, or finished with its
  response. \<open>post_start\<close> runs the handler up to its first await, and \<open>post_resume\<close>
  performs the awaited call on the store and runs the handler up to its next await.
\<close>

text \<open>The part of \<open>calculateAvailableSlots\<close> before its \<open>await\<close>.\<close>

definition workingWindow :: "date_parser \<Rightarrow> doctor \<Rightarrow> string \<Rightarrow> error + instant \<times> instant" where
  "workingWindow parse doc dateStr =
     (if dateStr = [] \<or> newDate parse dateStr = None then Inl InvalidDate
      else
        (case (newDate parse (dateStr @ ''T'' @ wh_start (workingHours doc) @ '':00Z''),
               newDate parse (dateStr @ ''T'' @ wh_end (workingHours doc) @ '':00Z'')) of
           (Some workingStart, Some workingEnd) \<Rightarrow> Inr (workingStart, workingEnd)
         | _ \<Rightarrow> Inl InvalidWorkingHoursOrDate))"

datatype task =
    AwaitDoctor postBody string
  | AwaitAppointments postBody string doctor instant instant
  | AwaitExisting postBody instant
  | AwaitSave appointment
  | Done response

definition post_start :: "date_parser \<Rightarrow> postBody \<Rightarrow> task" where
  "post_start parse b =
     (case req_date b of
        None \<Rightarrow> Done InvalidOrMissingDateField
      | Some dateIn \<Rightarrow>
          if dateIn = [] then Done InvalidOrMissingDateField
          else
            (case normalizeDate parse dateIn of
               None \<Rightarrow> Done InvalidDateFormat
             | Some processedDate \<Rightarrow> AwaitDoctor b processedDate))"

fun post_resume :: "date_parser \<Rightarrow> task \<Rightarrow> db \<Rightarrow> task \<times> db" where
  "post_resume parse (AwaitDoctor b processedDate) s =
     (case findDoctorById s (req_doctorId b) of
        None \<Rightarrow> (Done DoctorNotFound, s)
      | Some doc \<Rightarrow>
          (case workingWindow parse doc (splitT processedDate) of
             Inl e \<Rightarrow> (Done (Unhandled e), s)
           | Inr (workingStart, workingEnd) \<Rightarrow>
               (AwaitAppointments b processedDate doc workingStart workingEnd, s)))"
| "post_resume parse (AwaitAppointments b processedDate doc workingStart workingEnd) s =
     (let slots = slotLoop (findAppointments (appointments s) (doctor_id doc) workingStart workingEnd)
                    workingEnd (Some workingStart) []
      in if \<exists>slot \<in> set slots. newDate parse slot = None then (Done (Unhandled RangeError), s)
         else if processedDate \<notin> set (map (\<lambda>slot. toISOString (the (newDate parse slot))) slots)
         then (Done SlotUnavailable, s)
         else
           (case newDate parse processedDate of
              None \<Rightarrow> (Done (Unhandled CastError), s)
            | Some t \<Rightarrow> (AwaitExisting b t, s)))"
| "post_resume parse (AwaitExisting b t) s =
     (case findOneAppointment s (req_doctorId b) t of
        Some existingAppointment \<Rightarrow> (Done SlotAlreadyBooked, s)
      | None \<Rightarrow> (AwaitSave (newAppointment (nextId s) b t), s\<lparr>nextId := Suc (nextId s)\<rparr>))"
| "post_resume parse (AwaitSave a) s = (Done (Created a), insertAppointment a s)"
| "post_resume parse (Done r) s = (Done r, s)"

text \<open>Two handlers over one store, resumed in the order of a schedule.\<close>

datatype turn = First | Second

fun interleave :: "date_parser \<Rightarrow> turn list \<Rightarrow> db \<times> task \<times> task \<Rightarrow> db \<times> task \<times> task" where
  "interleave parse [] w = w"
| "interleave parse (First # ts) (s, t1, t2) =
     (case post_resume parse t1 s of (t1', s') \<Rightarrow> interleave parse ts (s', t1', t2))"
| "interleave parse (Second # ts) (s, t1, t2) =
     (case post_resume parse t2 s of (t2', s') \<Rightarrow> interleave parse ts (s', t1, t2'))"

text \<open>A handler resumed with nothing in between is the handler run at once.\<close>

fun resumes :: "date_parser \<Rightarrow> nat \<Rightarrow> task \<times> db \<Rightarrow> task \<times> db" where
  "resumes parse 0 x = x"
| "resumes parse (Suc n) (t, s) = resumes parse n (post_resume parse t s)"

section \<open>Notions used in the statements and proofs\<close>

text \<open>
  The grid of a working window: the instants \<open>workingStart + k * 30min\<close> below
  \<open>workingEnd\<close>, and those of them that no fetched appointment blocks. The loop is
  compared with these closed forms. \<open>slotEnd s\<close> is the \<open>nextSlot\<close> of the loop for the
  slot that starts at \<open>s\<close>.
\<close>

definition slotMs :: int where
  "slotMs = 30 * 60000"

definition slotEnd :: "instant \<Rightarrow> instant option" where
  "slotEnd s = TimeClip (of_int (s + slotMs))"

definition gridSlots :: "instant \<Rightarrow> instant \<Rightarrow> instant list" where
  "gridSlots workingStart workingEnd =
     map (\<lambda>k. workingStart + int k * slotMs)
       [0 ..< nat ((workingEnd - workingStart + (slotMs - 1)) div slotMs)]"

definition freeSlots :: "appointment list \<Rightarrow> instant \<Rightarrow> instant \<Rightarrow> instant list" where
  "freeSlots appts workingStart workingEnd =
     filter (\<lambda>s. \<not> isSlotTaken appts s (slotEnd s)) (gridSlots workingStart workingEnd)"

definition blockedSlots :: "appointment list \<Rightarrow> instant \<Rightarrow> instant \<Rightarrow> instant list" where
  "blockedSlots appts workingStart workingEnd =
     filter (\<lambda>s. isSlotTaken appts s (slotEnd s)) (gridSlots workingStart workingEnd)"

text \<open>
  A schedule in which the second handler is resumed for the third time, which is its
  check for an existing appointment, only after the first handler has been resumed four
  times, the fourth being its save. \<open>n1\<close> and \<open>n2\<close> count the resumptions before the
  schedule. \<open>other\<close> exchanges the two handlers.
\<close>

fun saveBeforeCheck :: "nat \<Rightarrow> nat \<Rightarrow> turn list \<Rightarrow> bool" where
  "saveBeforeCheck n1 n2 [] = True"
| "saveBeforeCheck n1 n2 (First # ts) = saveBeforeCheck (Suc n1) n2 ts"
| "saveBeforeCheck n1 n2 (Second # ts) = ((n2 < 2 \<or> 4 \<le> n1) \<and> saveBeforeCheck n1 (Suc n2) ts)"

fun other :: "turn \<Rightarrow> turn" where
  "other First = Second"
| "other Second = First"

text \<open>
  The states of a handler that commits, and of the store, after \<open>n\<close> resumptions of that
  handler; and the states that a second handler for the same doctor and instant can be in
  after \<open>n\<close> resumptions, when its third comes after the save of the first.
\<close>

definition firstTask ::
  "postBody \<Rightarrow> string \<Rightarrow> doctor \<Rightarrow> instant \<Rightarrow> instant \<Rightarrow> instant \<Rightarrow> appointment \<Rightarrow> nat \<Rightarrow> task" where
  "firstTask b pd doc ws we t a n =
     (if n = 0 then AwaitDoctor b pd
      else if n = 1 then AwaitAppointments b pd doc ws we
      else if n = 2 then AwaitExisting b t
      else if n = 3 then AwaitSave a
      else Done (Created a))"

definition firstStore :: "db \<Rightarrow> appointment \<Rightarrow> nat \<Rightarrow> db" where
  "firstStore s a n =
     (if n \<le> 2 then s
      else if n = 3 then s\<lparr>nextId := Suc (nextId s)\<rparr>
      else insertAppointment a (s\<lparr>nextId := Suc (nextId s)\<rparr>))"

definition secondTasks ::
  "postBody \<Rightarrow> string \<Rightarrow> doctor \<Rightarrow> instant \<Rightarrow> instant \<Rightarrow> instant \<Rightarrow> nat \<Rightarrow> task set" where
  "secondTasks b pd doc ws we t n =
     (if n = 0 then {AwaitDoctor b pd}
      else if n = 1 then {AwaitAppointments b pd doc ws we}
      else if n = 2 then {AwaitExisting b t, Done SlotUnavailable}
      else {Done SlotUnavailable, Done SlotAlreadyBooked})"

text \<open>The regular expression of \<open>sanitizeDate\<close> matches at offset \<open>k\<close> of the input.\<close>

definition matchAt :: "string \<Rightarrow> nat \<Rightarrow> bool" where
  "matchAt s k = (k \<le> length s \<and> matchPrefix isoRegex (drop k s))"

section \<open>Example data\<close>

definition exDoctor :: "string \<Rightarrow> string \<Rightarrow> doctor" where
  "exDoctor s e = \<lparr>doctor_id = 1, name = ''Dr A'', workingHours = \<lparr>wh_start = s, wh_end = e\<rparr>,
     specialization = ''obstetrics''\<rparr>"

definition exAppt :: "nat \<Rightarrow> instant \<Rightarrow> number option \<Rightarrow> appointment" where
  "exAppt i t d = \<lparr>appt_id = i, doctorId = 1, date = t, duration = d,
     appointmentType = ''checkup'', patientName = ''P'', appt_notes = ''''\<rparr>"

definition exDb :: "string \<Rightarrow> string \<Rightarrow> appointment list \<Rightarrow> db" where
  "exDb st en coll = \<lparr>doctors = [exDoctor st en], appointments = coll, nextId = 100\<rparr>"

definition exBody :: "string \<Rightarrow> number option \<Rightarrow> postBody" where
  "exBody d n = \<lparr>req_doctorId = 1, req_date = Some d, req_duration = n,
     req_appointmentType = ''checkup'', req_patientName = ''P'', req_notes = ''''\<rparr>"


section \<open>Auxiliary lemmas\<close>

lemma TimeClip_range: "TimeClip x = Some t \<Longrightarrow> \<bar>t\<bar> \<le> maxTime"
proof -
  assume a: "TimeClip x = Some t"
  then have r: "\<bar>x\<bar> \<le> of_int maxTime" and t: "t = ToIntegerOrInfinity x"
    by (auto simp: TimeClip_def split: if_splits)
  show ?thesis
  proof (cases "0 \<le> x")
    case True
    then have "t = \<lfloor>x\<rfloor>" using t by (simp add: ToIntegerOrInfinity_def)
    moreover have "0 \<le> \<lfloor>x\<rfloor>" using True by simp
    moreover have "\<lfloor>x\<rfloor> \<le> maxTime" using r True by (simp add: floor_le_iff maxTime_def)
    ultimately show ?thesis by simp
  next
    case False
    then have "t = \<lceil>x\<rceil>" using t by (simp add: ToIntegerOrInfinity_def)
    moreover have "\<lceil>x\<rceil> \<le> 0" using False by (simp add: ceiling_le_iff)
    moreover have "- maxTime \<le> \<lceil>x\<rceil>" using r False by (simp add: le_ceiling_iff maxTime_def)
    ultimately show ?thesis by simp
  qed
qed

lemma newDate_range: "newDate parse x = Some t \<Longrightarrow> \<bar>t\<bar> \<le> maxTime"
  by (auto simp: newDate_def TimeClip_of_int split: option.splits if_splits)

lemma newDate_Some: "newDate parse x = Some t \<Longrightarrow> parse x = Some t"
  by (auto simp: newDate_def TimeClip_of_int split: option.splits if_splits)

lemma slotEnd_eq:
  "slotEnd s = (if \<bar>s + slotMs\<bar> \<le> maxTime then Some (s + slotMs) else None)"
  unfolding slotEnd_def by (rule TimeClip_of_int)

lemma slotEnd_nextSlot: "TimeClip (of_int c + 1800000) = slotEnd c"
  by (simp add: slotEnd_def slotMs_def)

lemma gridSlots_Nil: "\<not> ws < we \<Longrightarrow> gridSlots ws we = []"
  by (simp add: gridSlots_def slotMs_def)

lemma gridSlots_Cons: "ws < we \<Longrightarrow> gridSlots ws we = ws # gridSlots (ws + slotMs) we"
proof -
  assume lt: "ws < we"
  let ?n = "nat ((we - (ws + slotMs) + (slotMs - 1)) div slotMs)"
  have "(we - ws + (slotMs - 1)) div slotMs = (we - (ws + slotMs) + (slotMs - 1)) div slotMs + 1"
    by (simp add: slotMs_def)
  moreover have "0 \<le> (we - (ws + slotMs) + (slotMs - 1)) div slotMs"
    using lt by (simp add: slotMs_def)
  ultimately have n: "nat ((we - ws + (slotMs - 1)) div slotMs) = Suc ?n"
    by simp
  have "map (\<lambda>k. ws + int k * slotMs) [0 ..< Suc ?n]
        = ws # map (\<lambda>k. ws + slotMs + int k * slotMs) [0 ..< ?n]"
    by (simp add: upt_conv_Cons map_Suc_upt [symmetric] algebra_simps del: upt_Suc)
  then show ?thesis
    unfolding gridSlots_def n by simp
qed

text \<open>
  The loop returns the rendering of the free grid instants. A \<open>nextSlot\<close> beyond the
  range of time values ends the loop, and is then beyond \<open>workingEnd\<close> as well.
\<close>

lemma slotLoop_eq_aux:
  "we \<le> maxTime \<Longrightarrow> (\<forall>c. cur = Some c \<longrightarrow> - maxTime \<le> c) \<Longrightarrow>
   slotLoop appts we cur acc =
     acc @ (case cur of None \<Rightarrow> [] | Some c \<Rightarrow> map toISOString (freeSlots appts c we))"
proof (induction appts we cur acc rule: slotLoop.induct)
  case (1 appts we cur acc)
  show ?case
  proof (cases cur)
    case None
    then show ?thesis by (subst slotLoop.simps) simp
  next
    case (Some c)
    have lo: "- maxTime \<le> c" using "1.prems"(2) Some by simp
    show ?thesis
    proof (cases "c < we")
      case False
      then show ?thesis
        using Some by (subst slotLoop.simps) (simp add: freeSlots_def gridSlots_Nil)
    next
      case True
      let ?acc = "if \<not> isSlotTaken appts c (slotEnd c) then acc @ [toISOString c] else acc"
      have step: "slotLoop appts we cur acc = slotLoop appts we (slotEnd c) ?acc"
        using True Some by (subst slotLoop.simps) (simp add: slotEnd_nextSlot)
      have range: "\<forall>n. slotEnd c = Some n \<longrightarrow> - maxTime \<le> n"
        using lo by (simp add: slotEnd_eq slotMs_def)
      have ih: "slotLoop appts we (slotEnd c) ?acc =
                ?acc @ (case slotEnd c of None \<Rightarrow> []
                        | Some n \<Rightarrow> map toISOString (freeSlots appts n we))"
        using "1.IH" [OF Some True "1.prems"(1)] range
        by (simp add: slotEnd_nextSlot)
      have rest: "(case slotEnd c of None \<Rightarrow> [] | Some n \<Rightarrow> map toISOString (freeSlots appts n we))
                  = map toISOString (freeSlots appts (c + slotMs) we)"
      proof (cases "\<bar>c + slotMs\<bar> \<le> maxTime")
        case True
        then show ?thesis by (simp add: slotEnd_eq)
      next
        case False
        then have "maxTime < c + slotMs" using lo by (simp add: slotMs_def)
        then have "\<not> c + slotMs < we" using "1.prems"(1) by simp
        then have "gridSlots (c + slotMs) we = []" by (rule gridSlots_Nil)
        then show ?thesis using False by (simp add: slotEnd_eq freeSlots_def)
      qed
      have "slotLoop appts we cur acc = ?acc @ map toISOString (freeSlots appts (c + slotMs) we)"
        unfolding step ih rest ..
      also have "\<dots> = acc @ map toISOString (freeSlots appts c we)"
        using gridSlots_Cons [OF True] by (simp add: freeSlots_def)
      finally show ?thesis using Some by simp
    qed
  qed
qed

lemma slotLoop_eq:
  assumes "\<bar>ws\<bar> \<le> maxTime" and "\<bar>we\<bar> \<le> maxTime"
  shows "slotLoop appts we (Some ws) acc = acc @ map toISOString (freeSlots appts ws we)"
  using slotLoop_eq_aux [of we "Some ws" appts acc] assms by simp

lemma calculateAvailableSlots_eq:
  assumes "dateStr \<noteq> []" and "newDate parse dateStr \<noteq> None"
    and "newDate parse (dateStr @ ''T'' @ wh_start (workingHours doc) @ '':00Z'') = Some ws"
    and "newDate parse (dateStr @ ''T'' @ wh_end (workingHours doc) @ '':00Z'') = Some we"
  shows "calculateAvailableSlots parse coll doc dateStr =
         Inr (map toISOString (freeSlots (findAppointments coll (doctor_id doc) ws we) ws we))"
  using assms newDate_range [OF assms(3)] newDate_range [OF assms(4)]
  by (simp add: calculateAvailableSlots_def slotLoop_eq)

lemma apptStart_eq:
  "apptStart A = (if \<bar>date A\<bar> \<le> maxTime then Some (date A) else None)"
  unfolding apptStart_def by (rule TimeClip_of_int)

lemma apptEnd_eq:
  "apptEnd A =
     (if \<bar>date A\<bar> \<le> maxTime then
        (case duration A of
           Some (Finite d) \<Rightarrow> TimeClip (of_int (date A) + d * 60000)
         | _ \<Rightarrow> None)
      else None)"
  by (simp add: apptEnd_def apptStart_eq split: option.split number.split)


lemma slotOverlaps_iff:
  "slotOverlaps s n A \<longleftrightarrow>
     (\<exists>a e m. apptStart A = Some a \<and> apptEnd A = Some e \<and> n = Some m \<and> s < e \<and> a < m)"
  by (auto simp: slotOverlaps_def date_lt_def split: option.splits)


text \<open>The end of an appointment of zero or negative duration is not after its start.\<close>

lemma ToIntegerOrInfinity_le:
  "x \<le> of_int a \<Longrightarrow> ToIntegerOrInfinity x \<le> a"
  by (simp add: ToIntegerOrInfinity_def floor_le_iff ceiling_le_iff)

lemma apptEnd_nonpositive:
  assumes "duration A = Some (Finite d)" and "d \<le> 0" and "apptEnd A = Some e"
  shows "e \<le> date A"
proof -
  have "d * 60000 \<le> 0" using assms(2) by (simp add: mult_le_0_iff)
  then have "of_int (date A) + d * 60000 \<le> of_int (date A)" by simp
  then have "ToIntegerOrInfinity (of_int (date A) + d * 60000) \<le> date A"
    by (rule ToIntegerOrInfinity_le)
  moreover have "e = ToIntegerOrInfinity (of_int (date A) + d * 60000)"
    using assms(1,3) by (auto simp: apptEnd_eq TimeClip_def split: if_splits)
  ultimately show ?thesis by simp
qed

lemma le_div_iff_int:
  fixes m n c :: int
  assumes "0 < c"
  shows "m \<le> n div c \<longleftrightarrow> m * c \<le> n"
proof
  assume "m \<le> n div c"
  then have "m * c \<le> (n div c) * c" using assms by (simp add: mult_right_mono)
  also have "\<dots> \<le> n" using assms
    by (metis mult.commute mult_div_mod_eq le_add_same_cancel1 pos_mod_sign order_less_imp_le)
  finally show "m * c \<le> n" .
next
  assume "m * c \<le> n"
  then have "(m * c) div c \<le> n div c" using assms by (rule zdiv_mono1)
  then show "m \<le> n div c" using assms by simp
qed

lemma gridSlots_sorted: "sorted_wrt (<) (gridSlots ws we)"
proof -
  have "sorted_wrt (\<lambda>x y. ws + int x * slotMs < ws + int y * slotMs) [0 ..< n]" for n :: nat
    by (rule sorted_wrt_mono_rel [OF _ sorted_wrt_upt]) (simp add: slotMs_def)
  then show ?thesis
    unfolding gridSlots_def sorted_wrt_map .
qed

lemma grid_index:
  "k < nat ((we - ws + (slotMs - 1)) div slotMs) \<longleftrightarrow> ws + int k * slotMs < we"
proof -
  have c: "0 < slotMs" by (simp add: slotMs_def)
  have "k < nat ((we - ws + (slotMs - 1)) div slotMs) \<longleftrightarrow> int k < (we - ws + (slotMs - 1)) div slotMs"
    by (rule zless_nat_eq_int_zless)
  also have "\<dots> \<longleftrightarrow> int k + 1 \<le> (we - ws + (slotMs - 1)) div slotMs"
    by (rule add1_zle_eq [symmetric])
  also have "\<dots> \<longleftrightarrow> (int k + 1) * slotMs \<le> we - ws + (slotMs - 1)"
    by (rule le_div_iff_int [OF c])
  also have "\<dots> \<longleftrightarrow> ws + int k * slotMs + 1 \<le> we"
    by (simp add: algebra_simps)
  also have "\<dots> \<longleftrightarrow> ws + int k * slotMs < we"
    by (rule add1_zle_eq)
  finally show ?thesis .
qed

lemma gridSlots_mem:
  "s \<in> set (gridSlots ws we) \<longleftrightarrow> (\<exists>k::nat. s = ws + int k * slotMs \<and> s < we)"
proof
  assume "s \<in> set (gridSlots ws we)"
  then obtain k where k: "k < nat ((we - ws + (slotMs - 1)) div slotMs)" and s: "s = ws + int k * slotMs"
    unfolding gridSlots_def by auto
  from k have "ws + int k * slotMs < we" by (simp only: grid_index)
  with s show "\<exists>k::nat. s = ws + int k * slotMs \<and> s < we" by blast
next
  assume "\<exists>k::nat. s = ws + int k * slotMs \<and> s < we"
  then obtain k :: nat where s: "s = ws + int k * slotMs" and lt: "ws + int k * slotMs < we" by blast
  from lt have "k < nat ((we - ws + (slotMs - 1)) div slotMs)" by (simp only: grid_index)
  then show "s \<in> set (gridSlots ws we)"
    unfolding gridSlots_def s by (simp only: set_map set_upt) (rule imageI, simp)
qed

lemma length_gridSlots:
  "int (length (gridSlots ws we)) = max 0 ((we - ws + (slotMs - 1)) div slotMs)"
  unfolding gridSlots_def by simp

lemma length_free_blocked:
  "length (freeSlots appts ws we) + length (blockedSlots appts ws we) = length (gridSlots ws we)"
  unfolding freeSlots_def blockedSlots_def
  using sum_length_filter_compl [of "\<lambda>s. isSlotTaken appts s (slotEnd s)" "gridSlots ws we"]
  by simp

lemma freeSlots_subset: "set (freeSlots appts ws we) \<subseteq> set (gridSlots ws we)"
  by (simp add: freeSlots_def)

lemma firstMatch_None:
  "(\<forall>k\<le>length s. \<not> matchPrefix p (drop k s)) \<Longrightarrow> firstMatch p s = None"
proof (induction s)
  case Nil
  then show ?case by simp
next
  case (Cons c cs)
  have "\<not> matchPrefix p (c # cs)" using Cons.prems [rule_format, of 0] by simp
  moreover have "\<forall>k\<le>length cs. \<not> matchPrefix p (drop k cs)"
    using Cons.prems by (metis Suc_le_mono drop_Suc_Cons length_Cons)
  ultimately show ?case using Cons.IH by simp
qed

lemma firstMatch_Some:
  "k \<le> length s \<Longrightarrow> matchPrefix p (drop k s) \<Longrightarrow> (\<forall>j<k. \<not> matchPrefix p (drop j s))
   \<Longrightarrow> firstMatch p s = Some (take (length p) (drop k s))"
proof (induction s arbitrary: k)
  case Nil
  then show ?case by simp
next
  case (Cons c cs)
  show ?case
  proof (cases k)
    case 0
    then show ?thesis using Cons.prems by simp
  next
    case (Suc k')
    have no: "\<not> matchPrefix p (c # cs)" using Cons.prems(3) [rule_format, of 0] Suc by simp
    have "\<forall>j<k'. \<not> matchPrefix p (drop j cs)"
      using Cons.prems(3) Suc by (metis Suc_less_eq drop_Suc_Cons)
    then have "firstMatch p cs = Some (take (length p) (drop k' cs))"
      using Cons.IH [of k'] Cons.prems(1,2) Suc by simp
    then show ?thesis using no Suc by simp
  qed
qed

lemma matchPrefix_length: "matchPrefix p s \<Longrightarrow> length p \<le> length s"
  by (induction p s rule: matchPrefix.induct) auto

text \<open>
  The slot check of the POST handler, when the parser reads every slot string back to
  itself: the comparison is with the slot strings as returned.
\<close>

lemma normalizedSlots_same:
  assumes "\<forall>slot\<in>set slots. map_option toISOString (newDate parse slot) = Some slot"
  shows "\<not> (\<exists>slot\<in>set slots. newDate parse slot = None)"
    and "map (\<lambda>slot. toISOString (the (newDate parse slot))) slots = slots"
proof -
  show "\<not> (\<exists>slot\<in>set slots. newDate parse slot = None)"
    using assms by fastforce
  have "toISOString (the (newDate parse slot)) = slot" if "slot \<in> set slots" for slot
    using assms that by fastforce
  then show "map (\<lambda>slot. toISOString (the (newDate parse slot))) slots = slots"
    by (simp add: map_idI)
qed

lemma post_appointments_path:
  assumes "req_date b = Some dateIn" and "dateIn \<noteq> []"
    and "normalizeDate parse dateIn = Some processedDate"
    and "findDoctorById s (req_doctorId b) = Some doc"
    and "calculateAvailableSlots parse (appointments s) doc (splitT processedDate) = Inr slots"
  shows "post_appointments parse s b =
     (if \<exists>slot \<in> set slots. newDate parse slot = None then (Unhandled RangeError, s)
      else if processedDate \<notin> set (map (\<lambda>slot. toISOString (the (newDate parse slot))) slots)
      then (SlotUnavailable, s)
      else
        (case newDate parse processedDate of
           None \<Rightarrow> (Unhandled CastError, s)
         | Some t \<Rightarrow>
             (case findOneAppointment s (req_doctorId b) t of
                Some existingAppointment \<Rightarrow> (SlotAlreadyBooked, s)
              | None \<Rightarrow>
                  (Created (newAppointment (nextId s) b t),
                   insertAppointment (newAppointment (nextId s) b t)
                     (s\<lparr>nextId := Suc (nextId s)\<rparr>)))))"
  unfolding post_appointments_def
  by (simp only: assms option.case sum.case if_False)

lemma post_appointments_steps:
  assumes "req_date b = Some dateIn" and "dateIn \<noteq> []"
    and "normalizeDate parse dateIn = Some processedDate"
    and "findDoctorById s (req_doctorId b) = Some doc"
    and "calculateAvailableSlots parse (appointments s) doc (splitT processedDate) = Inr slots"
    and "\<forall>slot\<in>set slots. map_option toISOString (newDate parse slot) = Some slot"
    and "newDate parse processedDate = Some t"
  shows "post_appointments parse s b =
     (if processedDate \<notin> set slots then (SlotUnavailable, s)
      else if findOneAppointment s (req_doctorId b) t \<noteq> None then (SlotAlreadyBooked, s)
      else (Created (newAppointment (nextId s) b t),
            insertAppointment (newAppointment (nextId s) b t) (s\<lparr>nextId := Suc (nextId s)\<rparr>)))"
  unfolding post_appointments_path [OF assms(1-5)]
  using normalizedSlots_same [OF assms(6)] assms(7)
  by (auto split: option.splits)





lemma calculateAvailableSlots_window:
  "calculateAvailableSlots parse coll doc dateStr =
     (case workingWindow parse doc dateStr of
        Inl e \<Rightarrow> Inl e
      | Inr (ws, we) \<Rightarrow> Inr (slotLoop (findAppointments coll (doctor_id doc) ws we) we (Some ws) []))"
  by (simp add: calculateAvailableSlots_def workingWindow_def split: option.split)

lemma workingWindow_range:
  "workingWindow parse doc dateStr = Inr (ws, we) \<Longrightarrow> \<bar>ws\<bar> \<le> maxTime \<and> \<bar>we\<bar> \<le> maxTime"
  by (auto simp: workingWindow_def newDate_range split: if_splits option.splits)

lemma post_resume_alone:
  "resumes parse (Suc (Suc (Suc (Suc 0)))) (post_start parse b, s) =
     (case post_appointments parse s b of (r, s') \<Rightarrow> (Done r, s'))"
  by (simp add: post_start_def post_appointments_def calculateAvailableSlots_window Let_def
      split: option.split sum.split prod.split) fastforce

lemma interleave_append:
  "interleave parse (xs @ ys) w = interleave parse ys (interleave parse xs w)"
proof (induction xs arbitrary: w)
  case Nil
  then show ?case by simp
next
  case (Cons x xs)
  obtain s t1 t2 where w: "w = (s, t1, t2)" by (cases w)
  show ?case using Cons.IH by (cases x) (simp_all add: w split: prod.split)
qed

lemma interleave_First:
  "interleave parse (replicate n First) (s, t1, t2) =
     (case resumes parse n (t1, s) of (t1', s') \<Rightarrow> (s', t1', t2))"
  by (induction n arbitrary: s t1) (simp_all split: prod.split)

lemma interleave_Second:
  "interleave parse (replicate n Second) (s, t1, t2) =
     (case resumes parse n (t2, s) of (t2', s') \<Rightarrow> (s', t1, t2'))"
  by (induction n arbitrary: s t2) (simp_all split: prod.split)

text \<open>The serial schedule is the two handlers run one after the other.\<close>

lemma interleave_serial:
  "interleave parse (replicate 4 First @ replicate 4 Second) (s, post_start parse b1, post_start parse b2) =
     (case post_appointments parse s b1 of
        (r1, s1) \<Rightarrow> (case post_appointments parse s1 b2 of (r2, s2) \<Rightarrow> (s2, Done r1, Done r2)))"
proof -
  have 4: "(4::nat) = Suc (Suc (Suc (Suc 0)))" by simp
  show ?thesis
    unfolding interleave_append interleave_First
    by (simp add: 4 post_resume_alone interleave_Second split: prod.split del: resumes.simps replicate.simps)
qed

text \<open>
  A date that is a number passes the first check of the PUT handler when it is a valid
  time value other than 0; the handler then fails at \<open>date.split\<close> and answers 500.
\<close>

lemma put_appointments_numeric_date:
  assumes "put_date b = JNum (Finite x)" and "x \<noteq> 0" and "\<bar>x\<bar> \<le> of_int maxTime"
    and "put_duration b = Some n" and "n \<noteq> Finite 0"
    and "findAppointmentById s i = Some appt"
    and "findDoctorById s (doctorId appt) = Some doc"
  shows "put_appointments parse s i b = (InternalServerError, s)"
  unfolding put_appointments_def
  by (simp add: assms TimeClip_def)

lemma post_appointments_Created_D:
  assumes "post_appointments parse s b = (Created a, s1)"
  shows "\<exists>dateIn pd doc ws we t.
           req_date b = Some dateIn \<and> dateIn \<noteq> [] \<and> normalizeDate parse dateIn = Some pd
           \<and> findDoctorById s (req_doctorId b) = Some doc
           \<and> workingWindow parse doc (splitT pd) = Inr (ws, we)
           \<and> \<not> (\<exists>slot\<in>set (slotLoop (findAppointments (appointments s) (doctor_id doc) ws we)
                               we (Some ws) []). newDate parse slot = None)
           \<and> pd \<in> set (map (\<lambda>slot. toISOString (the (newDate parse slot)))
                         (slotLoop (findAppointments (appointments s) (doctor_id doc) ws we)
                            we (Some ws) []))
           \<and> newDate parse pd = Some t
           \<and> findOneAppointment s (req_doctorId b) t = None
           \<and> a = newAppointment (nextId s) b t
           \<and> s1 = insertAppointment a (s\<lparr>nextId := Suc (nextId s)\<rparr>)"
  using assms
  by (auto simp: post_appointments_def calculateAvailableSlots_window
           split: option.splits sum.splits if_splits prod.splits)

lemma freeSlots_append_subset:
  "set (freeSlots (F @ G) ws we) \<subseteq> set (freeSlots F ws we)"
  by (auto simp: freeSlots_def isSlotTaken_def)

lemma findAppointments_append:
  "findAppointments (xs @ ys) i ws we = findAppointments xs i ws we @ findAppointments ys i ws we"
  by (simp add: findAppointments_def)

lemma find_append_last: "P a \<Longrightarrow> find P (xs @ [a]) \<noteq> None"
  by (auto simp: find_None_iff)

lemma firstStore_appointments:
  "\<exists>G. appointments (firstStore s a n) = appointments s @ G"
  by (simp add: firstStore_def insertAppointment_def)

lemma firstStore_doctors: "doctors (firstStore s a n) = doctors s"
  by (simp add: firstStore_def insertAppointment_def)

lemma first_step:
  assumes "findDoctorById s (req_doctorId b) = Some doc"
    and "workingWindow parse doc (splitT pd) = Inr (ws, we)"
    and "\<not> (\<exists>slot\<in>set (slotLoop (findAppointments (appointments s) (doctor_id doc) ws we)
                               we (Some ws) []). newDate parse slot = None)"
    and "pd \<in> set (map (\<lambda>slot. toISOString (the (newDate parse slot)))
                         (slotLoop (findAppointments (appointments s) (doctor_id doc) ws we)
                            we (Some ws) []))"
    and "newDate parse pd = Some t"
    and "findOneAppointment s (req_doctorId b) t = None"
    and "a = newAppointment (nextId s) b t"
  shows "post_resume parse (firstTask b pd doc ws we t a n) (firstStore s a n)
         = (firstTask b pd doc ws we t a (Suc n), firstStore s a (Suc n))"
proof -
  consider "n = 0" | "n = 1" | "n = 2" | "n = 3" | "4 \<le> n" by linarith
  then show ?thesis
  proof cases
    case 1
    then show ?thesis using assms(1,2) by (simp add: firstTask_def firstStore_def)
  next
    case 2
    then show ?thesis using assms(3,4,5) by (simp add: firstTask_def firstStore_def Let_def)
  next
    case 3
    then show ?thesis using assms(6,7) by (simp add: firstTask_def firstStore_def)
  next
    case 4
    then show ?thesis by (simp add: firstTask_def firstStore_def)
  next
    case 5
    then show ?thesis by (simp add: firstTask_def firstStore_def)
  qed
qed

lemma second_step:
  assumes "req_doctorId b2 = req_doctorId b"
    and "findDoctorById s (req_doctorId b) = Some doc"
    and "workingWindow parse doc (splitT pd) = Inr (ws, we)"
    and "\<not> (\<exists>slot\<in>set (slotLoop (findAppointments (appointments s) (doctor_id doc) ws we)
                               we (Some ws) []). newDate parse slot = None)"
    and "newDate parse pd = Some t"
    and "a = newAppointment (nextId s) b t"
    and "q \<in> secondTasks b2 pd doc ws we t j"
    and "j < 2 \<or> 4 \<le> n"
  shows "\<exists>q'\<in>secondTasks b2 pd doc ws we t (Suc j).
           post_resume parse q (firstStore s a n) = (q', firstStore s a n)"
proof -
  consider "j = 0" | "j = 1" | "j = 2" | "3 \<le> j" by linarith
  then show ?thesis
  proof cases
    case 1
    have "findDoctorById (firstStore s a n) (req_doctorId b2) = Some doc"
      using assms(1,2) by (simp add: findDoctorById_def firstStore_doctors)
    then show ?thesis
      using 1 assms(3,7) by (simp add: secondTasks_def)
  next
    case 2
    have r: "\<bar>ws\<bar> \<le> maxTime" "\<bar>we\<bar> \<le> maxTime"
      using workingWindow_range [OF assms(3)] by simp_all
    obtain G where G: "appointments (firstStore s a n) = appointments s @ G"
      using firstStore_appointments by blast
    let ?F0 = "findAppointments (appointments s) (doctor_id doc) ws we"
    let ?FN = "findAppointments (appointments (firstStore s a n)) (doctor_id doc) ws we"
    have "set (slotLoop ?FN we (Some ws) []) \<subseteq> set (slotLoop ?F0 we (Some ws) [])"
      unfolding G findAppointments_append slotLoop_eq [OF r]
      using freeSlots_append_subset by fastforce
    then have ok: "\<not> (\<exists>slot\<in>set (slotLoop ?FN we (Some ws) []). newDate parse slot = None)"
      using assms(4) by blast
    have q: "q = AwaitAppointments b2 pd doc ws we"
      using 2 assms(7) by (simp add: secondTasks_def)
    show ?thesis
      unfolding q using ok assms(5) 2 by (simp add: secondTasks_def Let_def)
  next
    case 3
    then have n: "4 \<le> n" using assms(8) by simp
    have "doctorId a = req_doctorId b2 \<and> date a = t"
      using assms(1) by (simp add: assms(6) newAppointment_def)
    then have ex: "findOneAppointment (firstStore s a n) (req_doctorId b2) t \<noteq> None"
      using n unfolding findOneAppointment_def
      by (simp add: firstStore_def insertAppointment_def find_append_last)
    from 3 assms(7) consider "q = AwaitExisting b2 t" | "q = Done SlotUnavailable"
      by (auto simp: secondTasks_def)
    then show ?thesis
    proof cases
      case 1
      then show ?thesis using ex 3 by (auto simp: secondTasks_def)
    next
      case 2
      then show ?thesis using 3 by (simp add: secondTasks_def)
    qed
  next
    case 4
    then have "q = Done SlotUnavailable \<or> q = Done SlotAlreadyBooked"
      using assms(7) by (auto simp: secondTasks_def)
    then show ?thesis using 4 by (auto simp: secondTasks_def)
  qed
qed


lemma exclusive_run:
  assumes "req_doctorId b2 = req_doctorId b"
    and "findDoctorById s (req_doctorId b) = Some doc"
    and "workingWindow parse doc (splitT pd) = Inr (ws, we)"
    and "\<not> (\<exists>slot\<in>set (slotLoop (findAppointments (appointments s) (doctor_id doc) ws we)
                               we (Some ws) []). newDate parse slot = None)"
    and "pd \<in> set (map (\<lambda>slot. toISOString (the (newDate parse slot)))
                         (slotLoop (findAppointments (appointments s) (doctor_id doc) ws we)
                            we (Some ws) []))"
    and "newDate parse pd = Some t"
    and "findOneAppointment s (req_doctorId b) t = None"
    and "a = newAppointment (nextId s) b t"
  shows "q \<in> secondTasks b2 pd doc ws we t n2 \<Longrightarrow> saveBeforeCheck n1 n2 sch \<Longrightarrow>
         \<exists>q'\<in>secondTasks b2 pd doc ws we t (n2 + count_list sch Second).
           interleave parse sch (firstStore s a n1, firstTask b pd doc ws we t a n1, q)
           = (firstStore s a (n1 + count_list sch First),
              firstTask b pd doc ws we t a (n1 + count_list sch First), q')"
proof (induction sch arbitrary: n1 n2 q)
  case Nil
  then show ?case by simp
next
  case (Cons x sch)
  show ?case
  proof (cases x)
    case First
    have sb: "saveBeforeCheck (Suc n1) n2 sch" using Cons.prems(2) First by simp
    show ?thesis
      using Cons.IH [OF Cons.prems(1) sb]
      by (simp add: First first_step [OF assms(2-8)])
  next
    case Second
    have c: "n2 < 2 \<or> 4 \<le> n1" and sb: "saveBeforeCheck n1 (Suc n2) sch"
      using Cons.prems(2) Second by simp_all
    obtain q' where q': "q' \<in> secondTasks b2 pd doc ws we t (Suc n2)"
      and st: "post_resume parse q (firstStore s a n1) = (q', firstStore s a n1)"
      using second_step [OF assms(1-4) assms(6) assms(8) Cons.prems(1) c] by blast
    show ?thesis
      using Cons.IH [OF q' sb] by (simp add: Second st)
  qed
qed

lemma interleave_other:
  "interleave parse (map other sch) (s, t2, t1)
   = (case interleave parse sch (s, t1, t2) of (s', t1', t2') \<Rightarrow> (s', t2', t1'))"
proof (induction sch arbitrary: s t1 t2)
  case Nil
  then show ?case by simp
next
  case (Cons x sch)
  show ?case by (cases x) (simp_all add: Cons.IH split: prod.split)
qed

lemma count_list_other:
  "count_list (map other sch) First = count_list sch Second"
  "count_list (map other sch) Second = count_list sch First"
proof -
  have "count_list (map other sch) First = count_list sch Second
        \<and> count_list (map other sch) Second = count_list sch First"
  proof (induction sch)
    case Nil
    then show ?case by simp
  next
    case (Cons x sch)
    then show ?case by (cases x) simp_all
  qed
  then show "count_list (map other sch) First = count_list sch Second"
    and "count_list (map other sch) Second = count_list sch First" by simp_all
qed

text \<open>The first handler commits alone on the initial store; the second is for the same doctor and instant.\<close>

lemma exclusive_first:
  assumes "req_doctorId b2 = req_doctorId b1"
    and "req_date b1 = Some d1" and "req_date b2 = Some d2" and "d2 \<noteq> []"
    and "normalizeDate parse d2 = normalizeDate parse d1"
    and "4 \<le> count_list sch First" and "4 \<le> count_list sch Second"
    and "saveBeforeCheck 0 0 sch"
    and "post_appointments parse s b1 = (Created a, s1)"
  shows "\<exists>r. interleave parse sch (s, post_start parse b1, post_start parse b2)
               = (s1, Done (Created a), Done r)
             \<and> (r = SlotUnavailable \<or> r = SlotAlreadyBooked)"
proof -
  obtain dateIn pd doc ws we t where
    d: "req_date b1 = Some dateIn" "dateIn \<noteq> []" "normalizeDate parse dateIn = Some pd"
    and doc: "findDoctorById s (req_doctorId b1) = Some doc"
    and win: "workingWindow parse doc (splitT pd) = Inr (ws, we)"
    and ok: "\<not> (\<exists>slot\<in>set (slotLoop (findAppointments (appointments s) (doctor_id doc) ws we)
                               we (Some ws) []). newDate parse slot = None)"
    and mem: "pd \<in> set (map (\<lambda>slot. toISOString (the (newDate parse slot)))
                         (slotLoop (findAppointments (appointments s) (doctor_id doc) ws we)
                            we (Some ws) []))"
    and t: "newDate parse pd = Some t"
    and none: "findOneAppointment s (req_doctorId b1) t = None"
    and a: "a = newAppointment (nextId s) b1 t"
    and s1: "s1 = insertAppointment a (s\<lparr>nextId := Suc (nextId s)\<rparr>)"
    using post_appointments_Created_D [OF assms(9)] by blast
  have n2: "normalizeDate parse d2 = Some pd"
    using d(1,3) assms(2,5) by simp
  have p1: "post_start parse b1 = firstTask b1 pd doc ws we t a 0"
    using d by (simp add: post_start_def firstTask_def)
  have p2: "post_start parse b2 \<in> secondTasks b2 pd doc ws we t 0"
    using assms(3,4) n2 by (simp add: post_start_def secondTasks_def)
  have s0: "s = firstStore s a 0" by (simp add: firstStore_def)
  obtain q' where q': "q' \<in> secondTasks b2 pd doc ws we t (0 + count_list sch Second)"
    and run: "interleave parse sch (firstStore s a 0, firstTask b1 pd doc ws we t a 0, post_start parse b2)
           = (firstStore s a (0 + count_list sch First),
              firstTask b1 pd doc ws we t a (0 + count_list sch First), q')"
    using exclusive_run [OF assms(1) doc win ok mem t none a p2 assms(8)] by blast
  have f: "firstStore s a (0 + count_list sch First) = s1"
    "firstTask b1 pd doc ws we t a (0 + count_list sch First) = Done (Created a)"
    using assms(6) by (simp_all add: firstStore_def firstTask_def s1)
  have "q' = Done SlotUnavailable \<or> q' = Done SlotAlreadyBooked"
    using q' assms(7) by (auto simp: secondTasks_def split: if_splits)
  then show ?thesis
    using run unfolding f p1 [symmetric] s0 [symmetric] by auto
qed

text \<open>
  The steps of a request for 09:00 of 30 minutes to the doctor who works 09:00 to 10:00,
  on a store without appointments and on a store with the appointment at 09:00.
\<close>

lemma ex_post_start:
  "post_start parseISO (exBody ''2024-05-01T09:00:00.000Z'' (Some (Finite 30)))
   = AwaitDoctor (exBody ''2024-05-01T09:00:00.000Z'' (Some (Finite 30))) ''2024-05-01T09:00:00.000Z''"
proof -
  have "normalizeDate parseISO ''2024-05-01T09:00:00.000Z'' = Some ''2024-05-01T09:00:00.000Z''"
    by code_simp
  then show ?thesis by (simp add: post_start_def exBody_def)
qed

lemma ex_resume_doctor:
  assumes "doctors s = [exDoctor ''09:00'' ''10:00'']"
  shows "post_resume parseISO
           (AwaitDoctor (exBody ''2024-05-01T09:00:00.000Z'' (Some (Finite 30))) ''2024-05-01T09:00:00.000Z'') s
         = (AwaitAppointments (exBody ''2024-05-01T09:00:00.000Z'' (Some (Finite 30)))
              ''2024-05-01T09:00:00.000Z'' (exDoctor ''09:00'' ''10:00'') 1714554000000 1714557600000, s)"
proof -
  have d: "findDoctorById s (req_doctorId (exBody ''2024-05-01T09:00:00.000Z'' (Some (Finite 30))))
           = Some (exDoctor ''09:00'' ''10:00'')"
    by (simp add: findDoctorById_def assms exBody_def exDoctor_def)
  have w: "workingWindow parseISO (exDoctor ''09:00'' ''10:00'') (splitT ''2024-05-01T09:00:00.000Z'')
           = Inr (1714554000000, 1714557600000)"
    by code_simp
  show ?thesis by (simp only: post_resume.simps d w option.case sum.case prod.case)
qed

lemma ex_resume_slots_free:
  assumes "appointments s = []"
  shows "post_resume parseISO
           (AwaitAppointments (exBody ''2024-05-01T09:00:00.000Z'' (Some (Finite 30)))
              ''2024-05-01T09:00:00.000Z'' (exDoctor ''09:00'' ''10:00'') 1714554000000 1714557600000) s
         = (AwaitExisting (exBody ''2024-05-01T09:00:00.000Z'' (Some (Finite 30))) 1714554000000, s)"
proof -
  let ?slots = "[''2024-05-01T09:00:00.000Z'', ''2024-05-01T09:30:00.000Z'']"
  have l: "slotLoop (findAppointments [] (doctor_id (exDoctor ''09:00'' ''10:00''))
                       1714554000000 1714557600000)
             1714557600000 (Some 1714554000000) [] = ?slots" by code_simp
  have r: "\<forall>slot\<in>set ?slots. map_option toISOString (newDate parseISO slot) = Some slot"
    by code_simp
  have p: "newDate parseISO ''2024-05-01T09:00:00.000Z'' = Some 1714554000000" by code_simp
  show ?thesis
    using normalizedSlots_same [OF r] p by (simp add: assms l)
qed

lemma ex_resume_slots_taken:
  assumes "appointments s = [exAppt 100 1714554000000 (Some (Finite 30))]"
  shows "post_resume parseISO
           (AwaitAppointments (exBody ''2024-05-01T09:00:00.000Z'' (Some (Finite 30)))
              ''2024-05-01T09:00:00.000Z'' (exDoctor ''09:00'' ''10:00'') 1714554000000 1714557600000) s
         = (Done SlotUnavailable, s)"
proof -
  let ?slots = "[''2024-05-01T09:30:00.000Z'']"
  have l: "slotLoop (findAppointments [exAppt 100 1714554000000 (Some (Finite 30))]
                       (doctor_id (exDoctor ''09:00'' ''10:00'')) 1714554000000 1714557600000)
             1714557600000 (Some 1714554000000) [] = ?slots" by code_simp
  have r: "\<forall>slot\<in>set ?slots. map_option toISOString (newDate parseISO slot) = Some slot"
    by code_simp
  show ?thesis
    using normalizedSlots_same [OF r] by (simp add: assms l)
qed

lemma ex_resume_existing_none:
  assumes "appointments s = []"
  shows "post_resume parseISO
           (AwaitExisting (exBody ''2024-05-01T09:00:00.000Z'' (Some (Finite 30))) 1714554000000) s
         = (AwaitSave (exAppt (nextId s) 1714554000000 (Some (Finite 30))), s\<lparr>nextId := Suc (nextId s)\<rparr>)"
  by (simp add: findOneAppointment_def assms newAppointment_def exBody_def exAppt_def)

lemma ex_resume_existing_some:
  assumes "appointments s = [exAppt 100 1714554000000 (Some (Finite 30))]"
  shows "post_resume parseISO
           (AwaitExisting (exBody ''2024-05-01T09:00:00.000Z'' (Some (Finite 30))) 1714554000000) s
         = (Done SlotAlreadyBooked, s)"
  by (simp add: findOneAppointment_def assms exBody_def exAppt_def)

lemma resume_AwaitSave:
  "post_resume parse (AwaitSave a) s = (Done (Created a), insertAppointment a s)"
  by simp

lemma resume_Done: "post_resume parse (Done r) s = (Done r, s)"
  by simp

lemma ex_post_alone:
  "post_appointments parseISO (exDb ''09:00'' ''10:00'' [])
     (exBody ''2024-05-01T09:00:00.000Z'' (Some (Finite 30)))
   = (Created (exAppt 100 1714554000000 (Some (Finite 30))),
      (exDb ''09:00'' ''10:00'' [exAppt 100 1714554000000 (Some (Finite 30))])\<lparr>nextId := 101\<rparr>)"
proof -
  let ?s = "exDb ''09:00'' ''10:00'' []"
  let ?b = "exBody ''2024-05-01T09:00:00.000Z'' (Some (Finite 30))"
  have s: "doctors ?s = [exDoctor ''09:00'' ''10:00'']" "appointments ?s = []" "nextId ?s = 100"
    "appointments (?s\<lparr>nextId := Suc (nextId ?s)\<rparr>) = []"
    by (simp_all add: exDb_def)
  have "resumes parseISO (Suc (Suc (Suc (Suc 0)))) (post_start parseISO ?b, ?s)
        = (Done (Created (exAppt 100 1714554000000 (Some (Finite 30)))),
           (exDb ''09:00'' ''10:00'' [exAppt 100 1714554000000 (Some (Finite 30))])\<lparr>nextId := 101\<rparr>)"
    unfolding ex_post_start
    by (simp only: resumes.simps ex_resume_doctor [OF s(1)] ex_resume_slots_free [OF s(2)]
          ex_resume_existing_none [OF s(2)] resume_AwaitSave s(3))
       (simp add: insertAppointment_def exDb_def)
  then show ?thesis
    unfolding post_resume_alone
    by (cases "post_appointments parseISO ?s ?b") simp
qed

section \<open>Exclusive admission\<close>

text \<open>
  C1, as amended. Two admission requests for the same doctor, whose dates normalise to
  the same instant, run concurrently, each resumed until it has answered. If one of
  them, which on the initial store alone would commit, has saved its appointment before
  the other performs its check for an existing appointment, then exactly that one commits:
  the other is rejected, with "Time slot is not available" or "Time slot is already
  booked", and the store ends as the first leaves it, with that one appointment of the
  doctor at the instant. This holds whichever of the two requests saves first. Nothing
  is claimed for the schedules in which each request performs its check before the other
  has saved.
\<close>

theorem admission_exclusive:
  assumes "req_doctorId b' = req_doctorId b"
    and "req_date b = Some d" and "d \<noteq> []" and "req_date b' = Some d'" and "d' \<noteq> []"
    and "normalizeDate parse d' = normalizeDate parse d"
    and "4 \<le> count_list sch First" and "4 \<le> count_list sch Second"
  shows "(saveBeforeCheck 0 0 sch \<and> post_appointments parse s b = (Created a, s') \<longrightarrow>
            (\<exists>r. interleave parse sch (s, post_start parse b, post_start parse b')
                   = (s', Done (Created a), Done r)
                 \<and> (r = SlotUnavailable \<or> r = SlotAlreadyBooked))
            \<and> appointments s' = appointments s @ [a]
            \<and> filter (\<lambda>x. doctorId x = doctorId a \<and> date x = date a) (appointments s') = [a])
       \<and> (saveBeforeCheck 0 0 (map other sch) \<and> post_appointments parse s b' = (Created a, s') \<longrightarrow>
            (\<exists>r. interleave parse sch (s, post_start parse b, post_start parse b')
                   = (s', Done r, Done (Created a))
                 \<and> (r = SlotUnavailable \<or> r = SlotAlreadyBooked))
            \<and> appointments s' = appointments s @ [a]
            \<and> filter (\<lambda>x. doctorId x = doctorId a \<and> date x = date a) (appointments s') = [a])"
proof -
  have one: "appointments s' = appointments s @ [a]
             \<and> filter (\<lambda>x. doctorId x = doctorId a \<and> date x = date a) (appointments s') = [a]"
    if c: "post_appointments parse s b = (Created a, s')" for b
  proof -
    obtain t where none: "findOneAppointment s (req_doctorId b) t = None"
      and a: "a = newAppointment (nextId s) b t"
      and s': "s' = insertAppointment a (s\<lparr>nextId := Suc (nextId s)\<rparr>)"
      using post_appointments_Created_D [OF c] by blast
    have da: "doctorId a = req_doctorId b" "date a = t"
      by (simp_all add: a newAppointment_def)
    have "filter (\<lambda>x. doctorId x = doctorId a \<and> date x = date a) (appointments s) = []"
      using none unfolding findOneAppointment_def da by (simp add: find_None_iff filter_empty_conv)
    then show ?thesis by (simp add: s' insertAppointment_def)
  qed
  have A: "\<exists>r. interleave parse sch (s, post_start parse b, post_start parse b')
                   = (s', Done (Created a), Done r)
                 \<and> (r = SlotUnavailable \<or> r = SlotAlreadyBooked)"
    if "saveBeforeCheck 0 0 sch" and "post_appointments parse s b = (Created a, s')"
    by (rule exclusive_first [OF assms(1,2,4,5,6,7,8) that])
  have B: "\<exists>r. interleave parse sch (s, post_start parse b, post_start parse b')
                   = (s', Done r, Done (Created a))
                 \<and> (r = SlotUnavailable \<or> r = SlotAlreadyBooked)"
    if sb: "saveBeforeCheck 0 0 (map other sch)" and c: "post_appointments parse s b' = (Created a, s')"
  proof -
    have c1: "4 \<le> count_list (map other sch) First" and c2: "4 \<le> count_list (map other sch) Second"
      using assms(7,8) by (simp_all add: count_list_other)
    obtain r where r: "interleave parse (map other sch) (s, post_start parse b', post_start parse b)
                   = (s', Done (Created a), Done r)"
      and rr: "r = SlotUnavailable \<or> r = SlotAlreadyBooked"
      using exclusive_first [OF assms(1) [symmetric] assms(4) assms(2) assms(3)
              assms(6) [symmetric] c1 c2 sb c] by blast
    have "interleave parse sch (s, post_start parse b, post_start parse b')
            = (s', Done r, Done (Created a))"
      using r unfolding interleave_other
      by (cases "interleave parse sch (s, post_start parse b, post_start parse b')") simp
    then show ?thesis using rr by blast
  qed
  show ?thesis using A B one by blast
qed

text \<open>
  Two requests for 09:00 of 30 minutes to the doctor who works 09:00 to 10:00. When the
  second is resumed twice before the first saves and checks for an existing appointment
  afterwards, it is answered "Time slot is already booked"; when it computes the
  available slots after the first has saved, it is answered "Time slot is not available";
  and when the second saves before the first checks, the first is rejected.
\<close>

theorem admission_exclusive_witness:
  "interleave parseISO [First, Second, First, Second, First, First, Second, Second]
     (exDb ''09:00'' ''10:00'' [],
      post_start parseISO (exBody ''2024-05-01T09:00:00.000Z'' (Some (Finite 30))),
      post_start parseISO (exBody ''2024-05-01T09:00:00.000Z'' (Some (Finite 30))))
   = ((exDb ''09:00'' ''10:00'' [exAppt 100 1714554000000 (Some (Finite 30))])\<lparr>nextId := 101\<rparr>,
      Done (Created (exAppt 100 1714554000000 (Some (Finite 30)))),
      Done SlotAlreadyBooked)
   \<and> interleave parseISO [First, Second, First, First, First, Second, Second, Second]
     (exDb ''09:00'' ''10:00'' [],
      post_start parseISO (exBody ''2024-05-01T09:00:00.000Z'' (Some (Finite 30))),
      post_start parseISO (exBody ''2024-05-01T09:00:00.000Z'' (Some (Finite 30))))
   = ((exDb ''09:00'' ''10:00'' [exAppt 100 1714554000000 (Some (Finite 30))])\<lparr>nextId := 101\<rparr>,
      Done (Created (exAppt 100 1714554000000 (Some (Finite 30)))),
      Done SlotUnavailable)
   \<and> interleave parseISO [Second, First, Second, First, Second, Second, First, First]
     (exDb ''09:00'' ''10:00'' [],
      post_start parseISO (exBody ''2024-05-01T09:00:00.000Z'' (Some (Finite 30))),
      post_start parseISO (exBody ''2024-05-01T09:00:00.000Z'' (Some (Finite 30))))
   = ((exDb ''09:00'' ''10:00'' [exAppt 100 1714554000000 (Some (Finite 30))])\<lparr>nextId := 101\<rparr>,
      Done SlotAlreadyBooked,
      Done (Created (exAppt 100 1714554000000 (Some (Finite 30)))))
   \<and> filter (\<lambda>x. doctorId x = 1 \<and> date x = 1714554000000)
        (appointments ((exDb ''09:00'' ''10:00''
           [exAppt 100 1714554000000 (Some (Finite 30))])\<lparr>nextId := 101\<rparr>))
     = [exAppt 100 1714554000000 (Some (Finite 30))]"
proof -
  let ?b = "exBody ''2024-05-01T09:00:00.000Z'' (Some (Finite 30))"
  let ?s = "exDb ''09:00'' ''10:00'' []"
  let ?a = "exAppt 100 1714554000000 (Some (Finite 30))"
  let ?s1 = "(exDb ''09:00'' ''10:00'' [?a])\<lparr>nextId := 101\<rparr>"
  have 1: "req_date ?b = Some ''2024-05-01T09:00:00.000Z''" by (simp add: exBody_def)
  have 2: "''2024-05-01T09:00:00.000Z'' \<noteq> []" by simp
  have c1: "4 \<le> count_list [First, Second, First, Second, First, First, Second, Second] First"
    "4 \<le> count_list [First, Second, First, Second, First, First, Second, Second] Second"
    "saveBeforeCheck 0 0 [First, Second, First, Second, First, First, Second, Second]"
    by simp_all
  have c2: "4 \<le> count_list [First, Second, First, First, First, Second, Second, Second] First"
    "4 \<le> count_list [First, Second, First, First, First, Second, Second, Second] Second"
    "saveBeforeCheck 0 0 [First, Second, First, First, First, Second, Second, Second]"
    by simp_all
  have c3: "4 \<le> count_list [Second, First, Second, First, Second, Second, First, First] First"
    "4 \<le> count_list [Second, First, Second, First, Second, Second, First, First] Second"
    "saveBeforeCheck 0 0 (map other [Second, First, Second, First, Second, Second, First, First])"
    by simp_all
  have s: "doctors ?s = [exDoctor ''09:00'' ''10:00'']" "appointments ?s = []" "nextId ?s = 100"
    by (simp_all add: exDb_def)
  have s1: "doctors ?s1 = [exDoctor ''09:00'' ''10:00'']" "appointments ?s1 = [?a]"
    by (simp_all add: exDb_def)
  have r1: "snd (snd (interleave parseISO [First, Second, First, Second, First, First, Second, Second]
                  (?s, post_start parseISO ?b, post_start parseISO ?b))) = Done SlotAlreadyBooked"
    unfolding ex_post_start
    by (simp add: ex_resume_doctor ex_resume_slots_free ex_resume_existing_none
          ex_resume_existing_some s insertAppointment_def resume_AwaitSave resume_Done
          del: post_resume.simps(1,2,3))
  have r2: "snd (snd (interleave parseISO [First, Second, First, First, First, Second, Second, Second]
                  (?s, post_start parseISO ?b, post_start parseISO ?b))) = Done SlotUnavailable"
    unfolding ex_post_start
    by (simp add: ex_resume_doctor ex_resume_slots_free ex_resume_existing_none
          ex_resume_slots_taken s insertAppointment_def resume_AwaitSave resume_Done
          del: post_resume.simps(1,2,3))
  have r3: "fst (snd (interleave parseISO [Second, First, Second, First, Second, Second, First, First]
                  (?s, post_start parseISO ?b, post_start parseISO ?b))) = Done SlotAlreadyBooked"
    unfolding ex_post_start
    by (simp add: ex_resume_doctor ex_resume_slots_free ex_resume_existing_none
          ex_resume_existing_some s insertAppointment_def resume_AwaitSave resume_Done
          del: post_resume.simps(1,2,3))
  have d: "doctorId ?a = 1" "date ?a = 1714554000000" by (simp_all add: exAppt_def)
  show ?thesis
    using admission_exclusive [where parse = parseISO and s = ?s and a = ?a and s' = ?s1
            and b = ?b and b' = ?b
            and sch = "[First, Second, First, Second, First, First, Second, Second]",
            OF refl 1 2 1 2 refl c1(1,2)] c1(3)
      admission_exclusive [where parse = parseISO and s = ?s and a = ?a and s' = ?s1
            and b = ?b and b' = ?b
            and sch = "[First, Second, First, First, First, Second, Second, Second]",
            OF refl 1 2 1 2 refl c2(1,2)] c2(3)
      admission_exclusive [where parse = parseISO and s = ?s and a = ?a and s' = ?s1
            and b = ?b and b' = ?b
            and sch = "[Second, First, Second, First, Second, Second, First, First]",
            OF refl 1 2 1 2 refl c3(1,2)] c3(3)
      ex_post_alone r1 r2 r3 d
    by auto
qed

text \<open>
  C1 as stated fails. Two handlers for the same doctor and instant that take turns at
  every await both pass the check for an existing appointment before either saves, and
  both commit: the store ends with two appointments of the doctor at 09:00. Run one after
  the other, the second request is answered "Time slot is not available", not "Time slot
  is already booked".
\<close>

theorem admission_race_counterexample:
  "interleave parseISO [First, Second, First, Second, First, Second, First, Second]
     (exDb ''09:00'' ''10:00'' [],
      post_start parseISO (exBody ''2024-05-01T09:00:00.000Z'' (Some (Finite 30))),
      post_start parseISO (exBody ''2024-05-01T09:00:00.000Z'' (Some (Finite 30))))
   = ((exDb ''09:00'' ''10:00''
         [exAppt 100 1714554000000 (Some (Finite 30)),
          exAppt 101 1714554000000 (Some (Finite 30))])\<lparr>nextId := 102\<rparr>,
      Done (Created (exAppt 100 1714554000000 (Some (Finite 30)))),
      Done (Created (exAppt 101 1714554000000 (Some (Finite 30)))))
   \<and> doctorId (exAppt 100 1714554000000 (Some (Finite 30)))
       = doctorId (exAppt 101 1714554000000 (Some (Finite 30)))
   \<and> date (exAppt 100 1714554000000 (Some (Finite 30)))
       = date (exAppt 101 1714554000000 (Some (Finite 30)))
   \<and> interleave parseISO [First, First, First, First, Second, Second, Second, Second]
     (exDb ''09:00'' ''10:00'' [],
      post_start parseISO (exBody ''2024-05-01T09:00:00.000Z'' (Some (Finite 30))),
      post_start parseISO (exBody ''2024-05-01T09:00:00.000Z'' (Some (Finite 30))))
   = ((exDb ''09:00'' ''10:00'' [exAppt 100 1714554000000 (Some (Finite 30))])\<lparr>nextId := 101\<rparr>,
      Done (Created (exAppt 100 1714554000000 (Some (Finite 30)))),
      Done SlotUnavailable)"
proof -
  let ?b = "exBody ''2024-05-01T09:00:00.000Z'' (Some (Finite 30))"
  let ?s = "exDb ''09:00'' ''10:00'' []"
  have s: "doctors ?s = [exDoctor ''09:00'' ''10:00'']" "appointments ?s = []" "nextId ?s = 100"
    by (simp_all add: exDb_def)
  have race: "interleave parseISO [First, Second, First, Second, First, Second, First, Second]
     (?s, post_start parseISO ?b, post_start parseISO ?b)
   = ((exDb ''09:00'' ''10:00''
         [exAppt 100 1714554000000 (Some (Finite 30)),
          exAppt 101 1714554000000 (Some (Finite 30))])\<lparr>nextId := 102\<rparr>,
      Done (Created (exAppt 100 1714554000000 (Some (Finite 30)))),
      Done (Created (exAppt 101 1714554000000 (Some (Finite 30)))))"
    unfolding ex_post_start
    by (simp add: ex_resume_doctor ex_resume_slots_free ex_resume_existing_none s
          resume_AwaitSave del: post_resume.simps(1,2,3))
       (simp add: exDb_def insertAppointment_def)
  have serial: "interleave parseISO [First, First, First, First, Second, Second, Second, Second]
     (?s, post_start parseISO ?b, post_start parseISO ?b)
   = ((exDb ''09:00'' ''10:00'' [exAppt 100 1714554000000 (Some (Finite 30))])\<lparr>nextId := 101\<rparr>,
      Done (Created (exAppt 100 1714554000000 (Some (Finite 30)))),
      Done SlotUnavailable)"
    unfolding ex_post_start
    by (simp add: ex_resume_doctor ex_resume_slots_free ex_resume_existing_none
          ex_resume_slots_taken s insertAppointment_def resume_AwaitSave resume_Done
          del: post_resume.simps(1,2,3))
       (simp add: exDb_def)
  show ?thesis
    unfolding race serial by (simp add: exAppt_def)
qed

section \<open>Overlapping slots are excluded\<close>




section \<open>The time normaliser\<close>

text \<open>
  C3, as amended. The normaliser extracts the first (leftmost) substring of the form
  \<open>YYYY-MM-DDTHH:MM:SS.mmmZ\<close>: when the input has no such substring it fails; when the
  leftmost one starts at offset \<open>k\<close>, the result is that substring parsed and rendered,
  or a failure if it does not parse. So a duplicated fragment normalises to the single
  instant, and of two distinct fragments the first is taken. The POST handler answers
  "Invalid date format" to a non-empty date string exactly when the normaliser fails.
\<close>

theorem normalizer_leftmost:
  "((\<forall>k. \<not> matchAt s k) \<longrightarrow> normalizeDate parse s = None)
   \<and> (matchAt s k \<and> (\<forall>j<k. \<not> matchAt s j) \<longrightarrow>
        normalizeDate parse s = map_option toISOString (newDate parse (take 24 (drop k s))))
   \<and> (req_date b = Some s \<and> s \<noteq> [] \<longrightarrow>
        (fst (post_appointments parse st b) = InvalidDateFormat \<longleftrightarrow> normalizeDate parse s = None))"
proof -
  have len: "length isoRegex = 24" by (simp add: isoRegex_def)
  have a: "normalizeDate parse s = None" if "\<forall>k. \<not> matchAt s k"
  proof -
    have "firstMatch isoRegex s = None"
      using that by (intro firstMatch_None) (simp add: matchAt_def)
    then show ?thesis by (simp add: normalizeDate_def sanitizeDate_def)
  qed
  have b: "normalizeDate parse s = map_option toISOString (newDate parse (take 24 (drop k s)))"
    if "matchAt s k" and "\<forall>j<k. \<not> matchAt s j"
  proof -
    have "\<forall>j<k. \<not> matchPrefix isoRegex (drop j s)"
      using that by (auto simp: matchAt_def)
    then have "firstMatch isoRegex s = Some (take 24 (drop k s))"
      using firstMatch_Some [of k s isoRegex] that(1) by (simp add: matchAt_def len)
    then show ?thesis
      by (simp add: normalizeDate_def sanitizeDate_def split: option.splits)
  qed
  have c: "fst (post_appointments parse st b) = InvalidDateFormat \<longleftrightarrow> normalizeDate parse s = None"
    if "req_date b = Some s" and "s \<noteq> []"
    using that by (auto simp: post_appointments_def split: option.splits sum.splits)
  show ?thesis using a b c by blast
qed

theorem normalizer_leftmost_witness:
  "normalizeDate parseISO ''2024-05-01T09:00:00.000Z2024-05-01T09:00:00.000Z''
     = Some ''2024-05-01T09:00:00.000Z''
   \<and> normalizeDate parseISO ''at 2024-05-01T09:00:00.000Z or 2024-05-01T10:00:00.000Z''
     = Some ''2024-05-01T09:00:00.000Z''
   \<and> normalizeDate parseISO ''2024-13-01T09:00:00.000Z'' = None
   \<and> normalizeDate parseISO ''tomorrow'' = None
   \<and> fst (post_appointments parseISO (exDb ''09:00'' ''10:00'' []) (exBody ''tomorrow'' (Some (Finite 30))))
     = InvalidDateFormat"
proof -
  have 1: "matchAt ''2024-05-01T09:00:00.000Z2024-05-01T09:00:00.000Z'' 0" by code_simp
  have 2: "matchAt ''at 2024-05-01T09:00:00.000Z or 2024-05-01T10:00:00.000Z'' 3" by code_simp
  have 3: "\<forall>j<3. \<not> matchAt ''at 2024-05-01T09:00:00.000Z or 2024-05-01T10:00:00.000Z'' j"
    by code_simp
  have 4: "matchAt ''2024-13-01T09:00:00.000Z'' 0" by code_simp
  have 5: "\<forall>k. \<not> matchAt ''tomorrow'' k"
    using matchPrefix_length [of isoRegex] by (fastforce simp: matchAt_def isoRegex_def)
  have 6: "newDate parseISO (take 24 (drop 0 ''2024-05-01T09:00:00.000Z2024-05-01T09:00:00.000Z''))
           = Some 1714554000000" by code_simp
  have 7: "newDate parseISO (take 24 (drop 3 ''at 2024-05-01T09:00:00.000Z or 2024-05-01T10:00:00.000Z''))
           = Some 1714554000000" by code_simp
  have 8: "newDate parseISO (take 24 (drop 0 ''2024-13-01T09:00:00.000Z'')) = None" by code_simp
  have 9: "toISOString 1714554000000 = ''2024-05-01T09:00:00.000Z''" by code_simp
  have 10: "req_date (exBody ''tomorrow'' (Some (Finite 30))) = Some ''tomorrow''" by (simp add: exBody_def)
  show ?thesis
    using normalizer_leftmost [where s = "''2024-05-01T09:00:00.000Z2024-05-01T09:00:00.000Z''"
            and k = 0 and parse = parseISO]
      normalizer_leftmost [where s = "''at 2024-05-01T09:00:00.000Z or 2024-05-01T10:00:00.000Z''"
            and k = 3 and parse = parseISO]
      normalizer_leftmost [where s = "''2024-13-01T09:00:00.000Z''" and k = 0 and parse = parseISO]
      normalizer_leftmost [where s = "''tomorrow''" and parse = parseISO
            and b = "exBody ''tomorrow'' (Some (Finite 30))" and st = "exDb ''09:00'' ''10:00'' []"]
      1 2 3 4 5 6 7 8 9 10
    by simp
qed

text \<open>
  C3 as stated fails on an input with two distinct timestamps: the normaliser does not
  fail, it takes the first, and the booking is created at 09:00.
\<close>

theorem normalizer_counterexample:
  "normalizeDate parseISO ''2024-05-01T09:00:00.000Z2024-05-01T10:00:00.000Z''
     = Some ''2024-05-01T09:00:00.000Z''
   \<and> sanitizeDate (drop 24 ''2024-05-01T09:00:00.000Z2024-05-01T10:00:00.000Z'')
     = Some ''2024-05-01T10:00:00.000Z''
   \<and> fst (post_appointments parseISO (exDb ''09:00'' ''10:00'' [])
            (exBody ''2024-05-01T09:00:00.000Z2024-05-01T10:00:00.000Z'' (Some (Finite 30))))
     = Created (exAppt 100 1714554000000 (Some (Finite 30)))"
proof -
  let ?b = "exBody ''2024-05-01T09:00:00.000Z2024-05-01T10:00:00.000Z'' (Some (Finite 30))"
  let ?s = "exDb ''09:00'' ''10:00'' []"
  have 1: "req_date ?b = Some ''2024-05-01T09:00:00.000Z2024-05-01T10:00:00.000Z''"
    by (simp add: exBody_def)
  have 2: "''2024-05-01T09:00:00.000Z2024-05-01T10:00:00.000Z'' \<noteq> []" by simp
  have 3: "normalizeDate parseISO ''2024-05-01T09:00:00.000Z2024-05-01T10:00:00.000Z''
     = Some ''2024-05-01T09:00:00.000Z''" by code_simp
  have 4: "findDoctorById ?s (req_doctorId ?b) = Some (exDoctor ''09:00'' ''10:00'')" by code_simp
  have 5: "calculateAvailableSlots parseISO (appointments ?s)
             (exDoctor ''09:00'' ''10:00'') (splitT ''2024-05-01T09:00:00.000Z'')
           = Inr [''2024-05-01T09:00:00.000Z'', ''2024-05-01T09:30:00.000Z'']" by code_simp
  have 6: "\<forall>slot\<in>set [''2024-05-01T09:00:00.000Z'', ''2024-05-01T09:30:00.000Z''].
             map_option toISOString (newDate parseISO slot) = Some slot" by code_simp
  have 7: "newDate parseISO ''2024-05-01T09:00:00.000Z'' = Some 1714554000000" by code_simp
  have 8: "findOneAppointment ?s (req_doctorId ?b) 1714554000000 = None" by code_simp
  have 9: "newAppointment (nextId ?s) ?b 1714554000000 = exAppt 100 1714554000000 (Some (Finite 30))"
    by (simp add: newAppointment_def exDb_def exBody_def exAppt_def)
  have 10: "sanitizeDate (drop 24 ''2024-05-01T09:00:00.000Z2024-05-01T10:00:00.000Z'')
     = Some ''2024-05-01T10:00:00.000Z''" by code_simp
  show ?thesis
    using post_appointments_steps [OF 1 2 3 4 5 6 7] 3 8 9 10 by simp
qed

section \<open>The grid of available slots\<close>

text \<open>
  C4, as amended. When both ends of the working window parse and \<open>start < end\<close>, the
  result is the rendering of instants on the 30-minute grid anchored at the start of
  the window, in strictly increasing order, each in \<open>[workingStart, workingEnd)\<close>; their
  number is the number of grid slots, \<open>(end - start) / 30min\<close> rounded up, minus the
  number of blocked grid slots.
\<close>

theorem available_slots_grid:
  assumes "dateStr \<noteq> []" and "newDate parse dateStr \<noteq> None"
    and "newDate parse (dateStr @ ''T'' @ wh_start (workingHours doc) @ '':00Z'') = Some ws"
    and "newDate parse (dateStr @ ''T'' @ wh_end (workingHours doc) @ '':00Z'') = Some we"
    and "ws < we"
    and "free = freeSlots (findAppointments coll (doctor_id doc) ws we) ws we"
    and "blocked = blockedSlots (findAppointments coll (doctor_id doc) ws we) ws we"
  shows "calculateAvailableSlots parse coll doc dateStr = Inr (map toISOString free)
         \<and> sorted_wrt (<) free
         \<and> (\<forall>s\<in>set free. ws \<le> s \<and> s < we \<and> (\<exists>k::nat. s = ws + int k * slotMs))
         \<and> int (length free) = (we - ws + (slotMs - 1)) div slotMs - int (length blocked)"
proof -
  have 1: "calculateAvailableSlots parse coll doc dateStr = Inr (map toISOString free)"
    unfolding assms(6) by (rule calculateAvailableSlots_eq [OF assms(1-4)])
  have 2: "sorted_wrt (<) free"
    unfolding assms(6) freeSlots_def by (rule sorted_wrt_filter [OF gridSlots_sorted])
  have 3: "\<forall>s\<in>set free. ws \<le> s \<and> s < we \<and> (\<exists>k::nat. s = ws + int k * slotMs)"
  proof
    fix s assume "s \<in> set free"
    then have "s \<in> set (gridSlots ws we)"
      unfolding assms(6) using freeSlots_subset by blast
    then obtain k :: nat where k: "s = ws + int k * slotMs" and lt: "s < we"
      unfolding gridSlots_mem by blast
    have "0 \<le> int k * slotMs" by (simp add: slotMs_def)
    then have "ws \<le> s" using k by simp
    then show "ws \<le> s \<and> s < we \<and> (\<exists>k::nat. s = ws + int k * slotMs)"
      using k lt by blast
  qed
  have "0 \<le> (we - ws + (slotMs - 1)) div slotMs"
    using assms(5) by (simp add: slotMs_def pos_imp_zdiv_nonneg_iff)
  then have "int (length (gridSlots ws we)) = (we - ws + (slotMs - 1)) div slotMs"
    by (simp add: length_gridSlots)
  then have 4: "int (length free) = (we - ws + (slotMs - 1)) div slotMs - int (length blocked)"
    unfolding assms(6,7)
    using length_free_blocked [of "findAppointments coll (doctor_id doc) ws we" ws we] by simp
  show ?thesis using 1 2 3 4 by blast
qed

theorem available_slots_grid_witness:
  "calculateAvailableSlots parseISO [exAppt 7 1714555800000 (Some (Finite 30))]
       (exDoctor ''09:00'' ''10:15'') ''2024-05-01''
     = Inr (map toISOString [1714554000000, 1714557600000])
   \<and> sorted_wrt (<) [1714554000000, 1714557600000 :: int]
   \<and> int (length [1714554000000, 1714557600000 :: int])
       = (1714558500000 - 1714554000000 + (slotMs - 1)) div slotMs
         - int (length [1714555800000 :: int])"
proof -
  have 1: "''2024-05-01'' \<noteq> []" by simp
  have 2: "newDate parseISO ''2024-05-01'' \<noteq> None" by code_simp
  have 3: "newDate parseISO (''2024-05-01'' @ ''T'' @ wh_start (workingHours (exDoctor ''09:00'' ''10:15'')) @ '':00Z'')
           = Some 1714554000000" by code_simp
  have 4: "newDate parseISO (''2024-05-01'' @ ''T'' @ wh_end (workingHours (exDoctor ''09:00'' ''10:15'')) @ '':00Z'')
           = Some 1714558500000" by code_simp
  have 5: "(1714554000000 :: int) < 1714558500000" by simp
  have 6: "[1714554000000, 1714557600000] =
      freeSlots (findAppointments [exAppt 7 1714555800000 (Some (Finite 30))]
         (doctor_id (exDoctor ''09:00'' ''10:15'')) 1714554000000 1714558500000)
         1714554000000 1714558500000" by code_simp
  have 7: "[1714555800000] =
      blockedSlots (findAppointments [exAppt 7 1714555800000 (Some (Finite 30))]
         (doctor_id (exDoctor ''09:00'' ''10:15'')) 1714554000000 1714558500000)
         1714554000000 1714558500000" by code_simp
  show ?thesis
    using available_slots_grid [OF 1 2 3 4 5 6 7] by blast
qed

text \<open>
  C4 as stated fails for working hours 09:00 to 10:15 with an appointment at 09:30 of
  30 minutes: two slots are returned, 09:00 and 10:00, which are 60 minutes apart, and
  \<open>(end - start) / 30min\<close> minus the one blocked slot is not two.
\<close>

theorem available_slots_grid_counterexample:
  "calculateAvailableSlots parseISO [exAppt 7 1714555800000 (Some (Finite 30))]
       (exDoctor ''09:00'' ''10:15'') ''2024-05-01''
     = Inr [''2024-05-01T09:00:00.000Z'', ''2024-05-01T10:00:00.000Z'']
   \<and> parseISO ''2024-05-01T09:00:00Z'' = Some 1714554000000
   \<and> parseISO ''2024-05-01T10:15:00Z'' = Some 1714558500000
   \<and> blockedSlots [exAppt 7 1714555800000 (Some (Finite 30))] 1714554000000 1714558500000
       = [1714555800000]
   \<and> int (length [''2024-05-01T09:00:00.000Z'', ''2024-05-01T10:00:00.000Z''])
       \<noteq> (1714558500000 - 1714554000000) div slotMs - int (length [1714555800000 :: int])
   \<and> parseISO ''2024-05-01T09:00:00.000Z'' = Some 1714554000000
   \<and> parseISO ''2024-05-01T10:00:00.000Z'' = Some 1714557600000
   \<and> 1714557600000 - 1714554000000 \<noteq> slotMs"
  by code_simp

section \<open>The overlap test\<close>




section \<open>Slot validation by exact instant\<close>

text \<open>
  C6, as amended. Once the date is normalised, the doctor is found and
  \<open>calculateAvailableSlots\<close> has returned the available slots of the doctor and day, the
  POST handler answers "Time slot is not available", and stores nothing, exactly when the
  normalised instant is not equal to one of the returned slot starts. The engine's parser
  is taken to read a slot string back to the same string, as \<open>Date.parse\<close> is required to
  for the output of \<open>toISOString\<close>.
\<close>

theorem slot_validation_exact:
  assumes "req_date b = Some dateIn" and "dateIn \<noteq> []"
    and "normalizeDate parse dateIn = Some processedDate"
    and "findDoctorById s (req_doctorId b) = Some doc"
    and "calculateAvailableSlots parse (appointments s) doc (splitT processedDate) = Inr slots"
    and "\<forall>slot\<in>set slots. map_option toISOString (newDate parse slot) = Some slot"
  shows "post_appointments parse s b = (SlotUnavailable, s) \<longleftrightarrow> processedDate \<notin> set slots"
  unfolding post_appointments_path [OF assms(1-5)]
  using normalizedSlots_same [OF assms(6)]
  by (auto split: option.splits)

text \<open>
  Working hours 09:00 to 10:00 and no appointment: the slots are 09:00 and 09:30, and a
  request for 09:15 is answered "Time slot is not available".
\<close>

theorem slot_validation_exact_witness:
  "post_appointments parseISO (exDb ''09:00'' ''10:00'' [])
       (exBody ''2024-05-01T09:15:00.000Z'' (Some (Finite 30)))
     = (SlotUnavailable, exDb ''09:00'' ''10:00'' [])
   \<and> ''2024-05-01T09:15:00.000Z'' \<notin> set [''2024-05-01T09:00:00.000Z'', ''2024-05-01T09:30:00.000Z'']"
proof -
  let ?b = "exBody ''2024-05-01T09:15:00.000Z'' (Some (Finite 30))"
  have 1: "req_date ?b = Some ''2024-05-01T09:15:00.000Z''"
    by (simp add: exBody_def)
  have 2: "''2024-05-01T09:15:00.000Z'' \<noteq> []" by simp
  have 3: "normalizeDate parseISO ''2024-05-01T09:15:00.000Z'' = Some ''2024-05-01T09:15:00.000Z''"
    by code_simp
  have 4: "findDoctorById (exDb ''09:00'' ''10:00'' []) (req_doctorId ?b)
           = Some (exDoctor ''09:00'' ''10:00'')" by code_simp
  have 5: "calculateAvailableSlots parseISO (appointments (exDb ''09:00'' ''10:00'' []))
             (exDoctor ''09:00'' ''10:00'') (splitT ''2024-05-01T09:15:00.000Z'')
           = Inr [''2024-05-01T09:00:00.000Z'', ''2024-05-01T09:30:00.000Z'']" by code_simp
  have 6: "\<forall>slot\<in>set [''2024-05-01T09:00:00.000Z'', ''2024-05-01T09:30:00.000Z''].
             map_option toISOString (newDate parseISO slot) = Some slot" by code_simp
  have 7: "''2024-05-01T09:15:00.000Z'' \<notin> set [''2024-05-01T09:00:00.000Z'', ''2024-05-01T09:30:00.000Z'']"
    by simp
  show ?thesis
    using slot_validation_exact [OF 1 2 3 4 5 6] 7 by blast
qed

text \<open>
  C6 as stated fails when \<open>calculateAvailableSlots\<close> throws. The doctor's working hours
  are stored as "9am" to "17:00"; a request for 09:00 is normalised and the doctor is
  found, no slot start is returned, and the handler is left by the error "Invalid working
  hours or date." without answering "Time slot is not available".
\<close>

theorem slot_validation_counterexample:
  "post_appointments parseISO (exDb ''9am'' ''17:00'' [])
       (exBody ''2024-05-01T09:00:00.000Z'' (Some (Finite 30)))
     = (Unhandled InvalidWorkingHoursOrDate, exDb ''9am'' ''17:00'' [])
   \<and> normalizeDate parseISO ''2024-05-01T09:00:00.000Z'' = Some ''2024-05-01T09:00:00.000Z''
   \<and> findDoctorById (exDb ''9am'' ''17:00'' []) 1 = Some (exDoctor ''9am'' ''17:00'')
   \<and> calculateAvailableSlots parseISO [] (exDoctor ''9am'' ''17:00'') ''2024-05-01''
     = Inl InvalidWorkingHoursOrDate"
proof -
  let ?b = "exBody ''2024-05-01T09:00:00.000Z'' (Some (Finite 30))"
  let ?s = "exDb ''9am'' ''17:00'' []"
  have 1: "req_date ?b = Some ''2024-05-01T09:00:00.000Z''" by (simp add: exBody_def)
  have 3: "normalizeDate parseISO ''2024-05-01T09:00:00.000Z'' = Some ''2024-05-01T09:00:00.000Z''"
    by code_simp
  have did: "req_doctorId ?b = 1" by (simp add: exBody_def)
  have 4: "findDoctorById ?s 1 = Some (exDoctor ''9am'' ''17:00'')" by code_simp
  have 5: "calculateAvailableSlots parseISO (appointments ?s) (exDoctor ''9am'' ''17:00'')
             (splitT ''2024-05-01T09:00:00.000Z'') = Inl InvalidWorkingHoursOrDate" by code_simp
  have 6: "calculateAvailableSlots parseISO [] (exDoctor ''9am'' ''17:00'') ''2024-05-01''
     = Inl InvalidWorkingHoursOrDate" by code_simp
  have d4: "findDoctorById ?s (req_doctorId ?b) = Some (exDoctor ''9am'' ''17:00'')"
    unfolding did by (rule 4)
  have "post_appointments parseISO ?s ?b = (Unhandled InvalidWorkingHoursOrDate, ?s)"
    unfolding post_appointments_def
    by (simp only: 1 3 d4 5 option.case sum.case list.simps if_False)
  then show ?thesis using 3 4 6 by simp
qed

section \<open>Updating an appointment\<close>




section \<open>Invalid working hours\<close>

text \<open>
  C8, as amended. With a valid day, slot generation fails with the error "Invalid working
  hours or date." whenever the start or the end of the working window does not parse to
  a valid instant. When both parse and \<open>start \<ge> end\<close> it does not fail: the loop body never
  runs and the result is the empty list.
\<close>

theorem working_hours_errors:
  assumes "dateStr \<noteq> []" and "newDate parse dateStr \<noteq> None"
  shows "(newDate parse (dateStr @ ''T'' @ wh_start (workingHours doc) @ '':00Z'') = None
          \<or> newDate parse (dateStr @ ''T'' @ wh_end (workingHours doc) @ '':00Z'') = None
          \<longrightarrow> calculateAvailableSlots parse coll doc dateStr = Inl InvalidWorkingHoursOrDate)
       \<and> (newDate parse (dateStr @ ''T'' @ wh_start (workingHours doc) @ '':00Z'') = Some ws
          \<and> newDate parse (dateStr @ ''T'' @ wh_end (workingHours doc) @ '':00Z'') = Some we
          \<and> we \<le> ws
          \<longrightarrow> calculateAvailableSlots parse coll doc dateStr = Inr [])"
proof -
  let ?S = "newDate parse (dateStr @ ''T'' @ wh_start (workingHours doc) @ '':00Z'')"
  let ?E = "newDate parse (dateStr @ ''T'' @ wh_end (workingHours doc) @ '':00Z'')"
  have a: "calculateAvailableSlots parse coll doc dateStr = Inl InvalidWorkingHoursOrDate"
    if "?S = None \<or> ?E = None"
    using that assms by (auto simp: calculateAvailableSlots_def split: option.splits)
  have b: "calculateAvailableSlots parse coll doc dateStr = Inr []"
    if "?S = Some ws" and "?E = Some we" and "we \<le> ws"
  proof -
    have "freeSlots (findAppointments coll (doctor_id doc) ws we) ws we = []"
      using that(3) by (simp add: freeSlots_def gridSlots_Nil)
    then show ?thesis
      using calculateAvailableSlots_eq [OF assms that(1,2), of coll] by simp
  qed
  show ?thesis using a b by blast
qed

theorem working_hours_errors_witness:
  "calculateAvailableSlots parseISO [] (exDoctor ''9am'' ''17:00'') ''2024-05-01''
     = Inl InvalidWorkingHoursOrDate
   \<and> calculateAvailableSlots parseISO [] (exDoctor ''10:00'' ''09:00'') ''2024-05-01'' = Inr []"
proof -
  have 1: "''2024-05-01'' \<noteq> []" by simp
  have 2: "newDate parseISO ''2024-05-01'' \<noteq> None" by code_simp
  have 3: "newDate parseISO (''2024-05-01'' @ ''T'' @ wh_start (workingHours (exDoctor ''9am'' ''17:00'')) @ '':00Z'')
           = None" by code_simp
  have 4: "newDate parseISO (''2024-05-01'' @ ''T'' @ wh_start (workingHours (exDoctor ''10:00'' ''09:00'')) @ '':00Z'')
           = Some 1714557600000" by code_simp
  have 5: "newDate parseISO (''2024-05-01'' @ ''T'' @ wh_end (workingHours (exDoctor ''10:00'' ''09:00'')) @ '':00Z'')
           = Some 1714554000000" by code_simp
  show ?thesis
    using working_hours_errors [where parse = parseISO and dateStr = "''2024-05-01''"
            and doc = "exDoctor ''9am'' ''17:00''" and coll = "[]", OF 1 2] 3
      working_hours_errors [where parse = parseISO and dateStr = "''2024-05-01''"
            and doc = "exDoctor ''10:00'' ''09:00''" and coll = "[]"
            and ws = 1714557600000 and we = 1714554000000, OF 1 2] 4 5
    by simp
qed

text \<open>C8 as stated fails for working hours 10:00 to 09:00: the result is the empty list.\<close>

theorem working_hours_errors_counterexample:
  "calculateAvailableSlots parseISO [] (exDoctor ''10:00'' ''09:00'') ''2024-05-01'' = Inr []
   \<and> wh_start (workingHours (exDoctor ''10:00'' ''09:00'')) = ''10:00''
   \<and> wh_end (workingHours (exDoctor ''10:00'' ''09:00'')) = ''09:00''"
  by code_simp

section \<open>Deleting an appointment\<close>

text \<open>
  C9. The delete operation answers 204 whether or not an appointment with the id exists;
  deleting an id that is not stored leaves the store as it was, and deleting twice gives
  the same answer and the same store as deleting once.
\<close>

theorem delete_idempotent:
  "fst (delete_appointments s i) = NoContent
   \<and> (findAppointmentById s i = None \<longrightarrow> delete_appointments s i = (NoContent, s))
   \<and> delete_appointments (snd (delete_appointments s i)) i = delete_appointments s i"
proof -
  have "filter (\<lambda>a. appt_id a \<noteq> i) (appointments s) = appointments s"
    if "findAppointmentById s i = None"
    using that by (simp add: findAppointmentById_def find_None_iff)
  then show ?thesis
    by (simp add: delete_appointments_def findByIdAndDelete_def)
qed

theorem delete_idempotent_witness:
  "delete_appointments (exDb ''09:00'' ''10:00'' [exAppt 7 1714554000000 (Some (Finite 30))]) 8
     = (NoContent, exDb ''09:00'' ''10:00'' [exAppt 7 1714554000000 (Some (Finite 30))])
   \<and> delete_appointments (exDb ''09:00'' ''10:00'' [exAppt 7 1714554000000 (Some (Finite 30))]) 7
     = (NoContent, exDb ''09:00'' ''10:00'' [])
   \<and> delete_appointments (exDb ''09:00'' ''10:00'' []) 7 = (NoContent, exDb ''09:00'' ''10:00'' [])"
proof -
  have 1: "findAppointmentById (exDb ''09:00'' ''10:00'' [exAppt 7 1714554000000 (Some (Finite 30))]) 8 = None"
    by (simp add: findAppointmentById_def exDb_def exAppt_def)
  have 2: "delete_appointments (exDb ''09:00'' ''10:00'' [exAppt 7 1714554000000 (Some (Finite 30))]) 7
     = (NoContent, exDb ''09:00'' ''10:00'' [])"
    by (simp add: delete_appointments_def findByIdAndDelete_def exDb_def exAppt_def)
  show ?thesis
    using delete_idempotent [of "exDb ''09:00'' ''10:00'' [exAppt 7 1714554000000 (Some (Finite 30))]" 8] 1
      delete_idempotent [of "exDb ''09:00'' ''10:00'' [exAppt 7 1714554000000 (Some (Finite 30))]" 7] 2
    by simp
qed

section \<open>The duration is not validated\<close>

text \<open>
  C10. The POST handler does not look at the duration: every request whose date passes
  normalisation, slot validation and the exact-instant check is answered 201, and its
  appointment, with the duration of the request, whatever it is, absent, zero and negative
  included, is added to the stored appointments, which are otherwise unchanged. An
  appointment stored without a duration, or with a duration of zero or less, then blocks
  no slot of the grid it lies on, its own slot included.
\<close>

theorem duration_not_validated:
  assumes "req_date b = Some dateIn" and "dateIn \<noteq> []"
    and "normalizeDate parse dateIn = Some processedDate"
    and "findDoctorById s (req_doctorId b) = Some doc"
    and "calculateAvailableSlots parse (appointments s) doc (splitT processedDate) = Inr slots"
    and "\<not> (\<exists>slot\<in>set slots. newDate parse slot = None)"
    and "processedDate \<in> set (map (\<lambda>slot. toISOString (the (newDate parse slot))) slots)"
    and "newDate parse processedDate = Some t"
    and "findOneAppointment s (req_doctorId b) t = None"
    and "a = newAppointment (nextId s) b t"
  shows "post_appointments parse s b
           = (Created a, s\<lparr>nextId := Suc (nextId s), appointments := appointments s @ [a]\<rparr>)
       \<and> a \<in> set (appointments (snd (post_appointments parse s b)))
       \<and> doctorId a = req_doctorId b \<and> date a = t \<and> duration a = req_duration b
       \<and> (req_duration b = None \<or> req_duration b = Some MinusInfinity
            \<or> (\<exists>n. req_duration b = Some (Finite n) \<and> n \<le> 0) \<longrightarrow>
            (\<forall>k::int. \<not> slotOverlaps (t + k * slotMs) (slotEnd (t + k * slotMs)) a))"
proof -
  have 1: "post_appointments parse s b
             = (Created a, insertAppointment a (s\<lparr>nextId := Suc (nextId s)\<rparr>))"
    unfolding post_appointments_path [OF assms(1-5)]
    using assms(6-10) by simp
  have 2: "doctorId a = req_doctorId b" "date a = t" "duration a = req_duration b"
    by (simp_all add: assms(10) newAppointment_def)
  have 3: "\<not> slotOverlaps (t + k * slotMs) (slotEnd (t + k * slotMs)) a"
    if h: "req_duration b = None \<or> req_duration b = Some MinusInfinity
            \<or> (\<exists>n. req_duration b = Some (Finite n) \<and> n \<le> 0)" for k :: int
  proof
    assume "slotOverlaps (t + k * slotMs) (slotEnd (t + k * slotMs)) a"
    then obtain x e m where x: "apptStart a = Some x" and e: "apptEnd a = Some e"
      and m: "slotEnd (t + k * slotMs) = Some m" and lt: "t + k * slotMs < e" "x < m"
      unfolding slotOverlaps_iff by blast
    from e obtain n where n: "duration a = Some (Finite n)"
      by (auto simp: apptEnd_def split: option.splits number.splits)
    then have "n \<le> 0" using h 2(3) by auto
    then have "e \<le> t" using apptEnd_nonpositive [OF n _ e] 2(2) by simp
    moreover have "x = t" using x 2(2) by (simp add: apptStart_eq split: if_splits)
    moreover have "m = t + k * slotMs + slotMs" using m by (simp add: slotEnd_eq split: if_splits)
    ultimately have "k * slotMs < 0" and "0 < (k + 1) * slotMs"
      using lt by (simp_all add: algebra_simps)
    then have "k < 0" and "0 < k + 1"
      by (simp_all add: slotMs_def mult_less_0_iff zero_less_mult_iff)
    then show False by simp
  qed
  show ?thesis
    using 2 3 by (simp add: 1 insertAppointment_def)
qed

text \<open>
  A doctor with an appointment at 09:00 receives requests for 09:30, one without a
  duration and one of minus 15 minutes. Each is answered 201 and stored after the
  appointment at 09:00; the stored appointment blocks neither its own slot nor the slot
  before it.
\<close>

theorem duration_not_validated_witness:
  "post_appointments parseISO (exDb ''09:00'' ''10:00'' [exAppt 7 1714554000000 (Some (Finite 30))])
       (exBody ''2024-05-01T09:30:00.000Z'' None)
     = (Created (exAppt 100 1714555800000 None),
        (exDb ''09:00'' ''10:00''
           [exAppt 7 1714554000000 (Some (Finite 30)), exAppt 100 1714555800000 None])\<lparr>nextId := 101\<rparr>)
   \<and> \<not> slotOverlaps 1714555800000 (slotEnd 1714555800000) (exAppt 100 1714555800000 None)
   \<and> post_appointments parseISO (exDb ''09:00'' ''10:00'' [exAppt 7 1714554000000 (Some (Finite 30))])
       (exBody ''2024-05-01T09:30:00.000Z'' (Some (Finite (- 15))))
     = (Created (exAppt 100 1714555800000 (Some (Finite (- 15)))),
        (exDb ''09:00'' ''10:00''
           [exAppt 7 1714554000000 (Some (Finite 30)),
            exAppt 100 1714555800000 (Some (Finite (- 15)))])\<lparr>nextId := 101\<rparr>)
   \<and> \<not> slotOverlaps 1714555800000 (slotEnd 1714555800000)
         (exAppt 100 1714555800000 (Some (Finite (- 15))))
   \<and> \<not> slotOverlaps 1714554000000 (slotEnd 1714554000000)
         (exAppt 100 1714555800000 (Some (Finite (- 15))))"
proof -
  let ?s = "exDb ''09:00'' ''10:00'' [exAppt 7 1714554000000 (Some (Finite 30))]"
  let ?pd = "''2024-05-01T09:30:00.000Z''"
  let ?slots = "[''2024-05-01T09:30:00.000Z'']"
  have 2: "?pd \<noteq> []" by simp
  have 3: "normalizeDate parseISO ?pd = Some ?pd" by code_simp
  have 5: "calculateAvailableSlots parseISO (appointments ?s)
             (exDoctor ''09:00'' ''10:00'') (splitT ?pd) = Inr ?slots" by code_simp
  have 8: "newDate parseISO ?pd = Some 1714555800000" by code_simp
  have 6: "\<not> (\<exists>slot\<in>set ?slots. newDate parseISO slot = None)" using 8 by simp
  have ts: "toISOString 1714555800000 = ?pd" by code_simp
  have 7: "?pd \<in> set (map (\<lambda>slot. toISOString (the (newDate parseISO slot))) ?slots)"
    using 8 ts by simp
  have r: "post_appointments parseISO ?s (exBody ?pd n)
             = (Created (exAppt 100 1714555800000 n),
                (exDb ''09:00'' ''10:00''
                   [exAppt 7 1714554000000 (Some (Finite 30)), exAppt 100 1714555800000 n])\<lparr>nextId := 101\<rparr>)
           \<and> (n = None \<or> n = Some MinusInfinity \<or> (\<exists>m. n = Some (Finite m) \<and> m \<le> 0) \<longrightarrow>
                (\<forall>k::int. \<not> slotOverlaps (1714555800000 + k * slotMs)
                               (slotEnd (1714555800000 + k * slotMs)) (exAppt 100 1714555800000 n)))" for n
  proof -
    have 1: "req_date (exBody ?pd n) = Some ?pd" by (simp add: exBody_def)
    have did: "req_doctorId (exBody ?pd n) = 1" by (simp add: exBody_def)
    have dur: "req_duration (exBody ?pd n) = n" by (simp add: exBody_def)
    have 4: "findDoctorById ?s (req_doctorId (exBody ?pd n)) = Some (exDoctor ''09:00'' ''10:00'')"
      unfolding did by code_simp
    have 9: "findOneAppointment ?s (req_doctorId (exBody ?pd n)) 1714555800000 = None"
      unfolding did by code_simp
    have 10: "exAppt 100 1714555800000 n = newAppointment (nextId ?s) (exBody ?pd n) 1714555800000"
      by (simp add: newAppointment_def exDb_def exBody_def exAppt_def)
    have st: "?s\<lparr>nextId := Suc (nextId ?s),
                  appointments := appointments ?s @ [exAppt 100 1714555800000 n]\<rparr>
              = (exDb ''09:00'' ''10:00''
                   [exAppt 7 1714554000000 (Some (Finite 30)), exAppt 100 1714555800000 n])\<lparr>nextId := 101\<rparr>"
      by (simp add: exDb_def)
    show ?thesis
      using duration_not_validated [OF 1 2 3 4 5 6 7 8 9 10] unfolding dur st by blast
  qed
  show ?thesis
    using r [of None, THEN conjunct1]
      r [of None, THEN conjunct2, rule_format, of 0]
      r [of "Some (Finite (- 15))", THEN conjunct1]
      r [of "Some (Finite (- 15))", THEN conjunct2, rule_format, of 0]
      r [of "Some (Finite (- 15))", THEN conjunct2, rule_format, of "- 1"]
    by (simp add: slotMs_def)
qed

end
